theory Spec2Isabelle
  imports Main "HOL-Library.Word" "HOL-Library.AList" "HOL-Library.Char_ord" "HOL-Library.List_Lexorder"
begin

section \<open>go-selfupdate: the updater and the release builder\<close>

text \<open>
  A shallow embedding of \<^verbatim>\<open>selfupdate/selfupdate.go\<close> (the updater) and of
  \<^verbatim>\<open>CreateUpdate\<close> (the release builder). Go strings and byte slices are
  \<open>string\<close> (lists of bytes). Go's \<open>int\<close> and \<open>time.Duration\<close> are 64-bit
  two's-complement words, read with \<open>sint\<close>; their arithmetic wraps. An instant
  (\<open>time.Time\<close>) is an unbounded integer of nanoseconds counted from the zero
  instant \<open>time.Time{}\<close>.
\<close>

type_synonym bytes = string
type_synonym instant = int
type_synonym go_int = "64 word"
type_synonym duration = "64 word"

subsection \<open>Errors, panics and results\<close>

text \<open>
  Go errors are values. The two exported sentinels and the errors the package builds with
  \<open>fmt.Errorf\<close> have a constructor each; \<open>ErrNotExist\<close> stands for the errors
  \<open>os.IsNotExist\<close> accepts; \<open>ErrOther\<close> carries any other message (network, file system,
  decoder, codec). A panic is the \<open>Panicked\<close> branch of a result.
\<close>

datatype error =
    ErrHashMismatch
  | ErrSignatureMismatch
  | ErrNoSignature
  | ErrBadCmdHash nat nat
  | ErrNilReadCloser
  | ErrUpdateAndRecovery "error option" error
  | ErrInvalidIntn
  | ErrNotExist
  | ErrOther string

datatype 'a result = Panicked error | Returned 'a

datatype log_line =
    LogHashMismatchPatched
  | LogErrorPatching error
  | LogHashMismatchFull
  | LogErrorFetchingFull error

subsection \<open>Data model\<close>

datatype rsa_PublicKey = RsaPublicKey nat int

datatype rsa_PrivateKey = RsaPrivateKey rsa_PublicKey nat

text \<open>The manifest. \<open>Signature\<close> is \<open>None\<close> for Go's \<open>nil\<close> slice.\<close>

record Info =
  Version :: string
  Sha256 :: bytes
  Signature :: "bytes option"

definition emptyInfo :: Info where
  "emptyInfo = \<lparr>Version = [], Sha256 = [], Signature = None\<rparr>"

text \<open>
  A \<open>Requester\<close> answers a URL with the pair \<open>(io.ReadCloser, error)\<close> of Go, either of
  which may be \<open>nil\<close>. Its first argument is the list of URLs requested before, so that
  a requester may answer differently from one call to the next.
\<close>

type_synonym requester = "string list \<Rightarrow> string \<Rightarrow> bytes option \<times> error option"

record Updater =
  CurrentVersion :: string
  ApiURL :: string
  CmdName :: string
  BinURL :: string
  DiffURL :: string
  Dir :: string
  ForceCheck :: bool
  CheckTime :: go_int
  RandomizeTime :: go_int
  Requester :: "requester option"
  PublicKey :: "rsa_PublicKey option"
  Target :: string

text \<open>
  The libraries the package calls are parameters: the path functions, the RFC3339
  formatter and parser of \<open>time\<close>, SHA-256, RSA signing and verification, the JSON
  encoder and decoder, the bsdiff codec and gzip. \<open>plat\<close> is the constant \<open>runtime.GOOS + "-" + runtime.GOARCH\<close>.
  The layout \<open>time.RFC3339\<close> has no field below the second, so the formatter is a function
  of the whole second: \<open>rfc3339_Text\<close> is the text of a count of seconds from the zero
  instant. The parser stays a function from texts to instants.
\<close>

record externals =
  plat :: string
  filepath_Dir :: "string \<Rightarrow> string"
  filepath_Join :: "string \<Rightarrow> string \<Rightarrow> string"
  rfc3339_Text :: "int \<Rightarrow> string"
  time_Parse :: "string \<Rightarrow> error + instant"
  sha256_Sum :: "bytes \<Rightarrow> bytes"
  rsa_VerifyPKCS1v15 :: "rsa_PublicKey \<Rightarrow> bytes \<Rightarrow> bytes \<Rightarrow> error option"
  json_Decode :: "bytes \<Rightarrow> error + Info"
  binarydist_Patch :: "bytes \<Rightarrow> bytes \<Rightarrow> bytes \<times> error option"
  binarydist_Diff :: "bytes \<Rightarrow> bytes \<Rightarrow> error + bytes"
  gzip_Read :: "bytes \<Rightarrow> error + bytes"
  gzip_Write :: "bytes \<Rightarrow> bytes"
  json_MarshalIndent :: "Info \<Rightarrow> error + bytes"
  rsa_SignPKCS1v15 :: "rsa_PrivateKey \<Rightarrow> bytes \<Rightarrow> error + bytes"

text \<open>
  The world the updater runs in: the clock, the path of the running executable
  (\<open>osext.Executable\<close>), what reading a path gives, whether writing a path or creating a
  directory fails, the next draw of the random source, the update engine
  (\<open>up.CanUpdate\<close>, \<open>up.FromStream\<close>) and the default HTTP requester. The lists
  \<open>fetched\<close>, \<open>logged\<close> and \<open>installed\<close> record, in order, the URLs requested, the
  lines logged and the binaries handed to the update engine.
\<close>

record world =
  time_Now :: instant
  osext_Executable :: "error + string"
  files :: "string \<Rightarrow> error + bytes"
  write_failure :: "string \<Rightarrow> error option"
  mkdir_failure :: "string \<Rightarrow> error option"
  rand_source :: nat
  up_CanUpdate :: "error option"
  up_FromStream :: "bytes \<Rightarrow> error option \<times> error option"
  defaultHTTPRequester :: "string list \<Rightarrow> string \<Rightarrow> error + bytes"
  fetched :: "string list"
  logged :: "log_line list"
  installed :: "bytes list"

subsection \<open>Time and randomness\<close>

definition upcktimePath :: string where
  "upcktimePath = ''cktime''"

definition time_Hour :: duration where
  "time_Hour = 3600000000000"

definition time_Add :: "instant \<Rightarrow> duration \<Rightarrow> instant" where
  "time_Add t d = t + sint d"

definition time_After :: "instant \<Rightarrow> instant \<Rightarrow> bool" where
  "time_After t u = (u < t)"

definition time_Zero :: instant where
  "time_Zero = 0"

definition time_Second :: int where
  "time_Second = 1000000000"

text \<open>
  \<open>t.Format(time.RFC3339)\<close>: the text of the second the instant lies in. An instant is a
  count of nanoseconds, so the second is the quotient rounded down.
\<close>

definition time_Format :: "externals \<Rightarrow> instant \<Rightarrow> string" where
  "time_Format x t = rfc3339_Text x (t div time_Second)"

text \<open>
  \<open>rand.Intn n\<close> panics for \<open>n \<le> 0\<close> and otherwise returns a number of the half-open
  interval from 0 to \<open>n\<close>: the draw of the source reduced modulo \<open>n\<close>, so that every
  number of the interval is the result for some draw.
\<close>

definition rand_Intn :: "world \<Rightarrow> go_int \<Rightarrow> go_int result" where
  "rand_Intn w n =
     (if sint n \<le> 0 then Panicked ErrInvalidIntn
      else Returned (of_nat (rand_source w mod nat (sint n))))"

subsection \<open>Paths and the cooldown file\<close>

definition getTargetAbsoluteDir :: "world \<Rightarrow> Updater \<Rightarrow> string result" where
  "getTargetAbsoluteDir w u =
     (if Target u = [] then
        (case osext_Executable w of
           Inl err \<Rightarrow> Panicked err
         | Inr filename \<Rightarrow> Returned filename)
      else Returned (Target u))"

definition getExecRelativeDir :: "externals \<Rightarrow> world \<Rightarrow> Updater \<Rightarrow> string \<Rightarrow> string result" where
  "getExecRelativeDir x w u dir =
     (case getTargetAbsoluteDir w u of
        Panicked err \<Rightarrow> Panicked err
      | Returned filename \<Rightarrow> Returned (filepath_Join x (filepath_Dir x filename) dir))"

definition readTime :: "externals \<Rightarrow> world \<Rightarrow> string \<Rightarrow> instant" where
  "readTime x w path =
     (case files w path of
        Inl err \<Rightarrow>
          (if err = ErrNotExist then time_Zero
           else time_Add (time_Now w) (1000 * time_Hour))
      | Inr p \<Rightarrow>
          (case time_Parse x p of
             Inl err \<Rightarrow> time_Add (time_Now w) (1000 * time_Hour)
           | Inr t \<Rightarrow> t))"

definition writeTime :: "externals \<Rightarrow> world \<Rightarrow> string \<Rightarrow> instant \<Rightarrow> bool \<times> world" where
  "writeTime x w path t =
     (case write_failure w path of
        Some err \<Rightarrow> (False, w)
      | None \<Rightarrow> (True, w\<lparr>files := (files w)(path := Inr (time_Format x t))\<rparr>))"

definition NextUpdate :: "externals \<Rightarrow> world \<Rightarrow> Updater \<Rightarrow> instant result" where
  "NextUpdate x w u =
     (case getExecRelativeDir x w u (Dir u @ upcktimePath) of
        Panicked err \<Rightarrow> Panicked err
      | Returned path \<Rightarrow> Returned (readTime x w path))"

definition WantUpdate :: "externals \<Rightarrow> world \<Rightarrow> Updater \<Rightarrow> bool result" where
  "WantUpdate x w u =
     (if CurrentVersion u = ''dev'' then Returned False
      else if \<not> ForceCheck u then
        (case NextUpdate x w u of
           Panicked err \<Rightarrow> Panicked err
         | Returned t \<Rightarrow>
             (if time_After t (time_Now w) then Returned False else Returned True))
      else Returned True)"

definition SetUpdateTime :: "externals \<Rightarrow> world \<Rightarrow> Updater \<Rightarrow> bool result \<times> world" where
  "SetUpdateTime x w u =
     (case getExecRelativeDir x w u (Dir u @ upcktimePath) of
        Panicked err \<Rightarrow> (Panicked err, w)
      | Returned path \<Rightarrow>
          (let wait = CheckTime u * time_Hour in
           case rand_Intn w (RandomizeTime u + 1) of
             Panicked err \<Rightarrow> (Panicked err, w)
           | Returned n \<Rightarrow>
               (let waitrand = n * time_Hour;
                    (ok, w') = writeTime x w path (time_Add (time_Now w) (wait + waitrand))
                in (Returned ok, w'))))"

subsection \<open>URLs\<close>

text \<open>
  \<open>url.QueryEscape\<close> of the standard library: letters, digits and the marks
  \<open>- _ . ~\<close> stay, a space becomes \<open>+\<close>, and every other byte becomes \<open>%\<close> and its
  two upper-case hexadecimal digits.
\<close>

definition upperhex :: string where
  "upperhex = ''0123456789ABCDEF''"

definition shouldEscape :: "char \<Rightarrow> bool" where
  "shouldEscape c =
     (let n = (of_char c :: nat) in
      if (97 \<le> n \<and> n \<le> 122) \<or> (65 \<le> n \<and> n \<le> 90) \<or> (48 \<le> n \<and> n \<le> 57) then False
      else if c \<in> set ''-_.~'' then False
      else True)"

fun QueryEscape :: "string \<Rightarrow> string" where
  "QueryEscape [] = []"
| "QueryEscape (c # s) =
     (if c = CHR '' '' then CHR ''+'' # QueryEscape s
      else if shouldEscape c then
        CHR ''%'' # upperhex ! ((of_char c :: nat) div 16) # upperhex ! ((of_char c :: nat) mod 16)
          # QueryEscape s
      else c # QueryEscape s)"

subsection \<open>Fetching and verifying\<close>

definition sha256_Size :: nat where
  "sha256_Size = 32"

definition fetch :: "world \<Rightarrow> Updater \<Rightarrow> string \<Rightarrow> (error + bytes) \<times> world" where
  "fetch w u url =
     (let w' = w\<lparr>fetched := fetched w @ [url]\<rparr> in
      case Requester u of
        None \<Rightarrow> (defaultHTTPRequester w (fetched w) url, w')
      | Some rq \<Rightarrow>
          (case rq (fetched w) url of
             (readCloser, Some err) \<Rightarrow> (Inl err, w')
           | (None, None) \<Rightarrow> (Inl ErrNilReadCloser, w')
           | (Some r, None) \<Rightarrow> (Inr r, w')))"

definition manifestURL :: "externals \<Rightarrow> Updater \<Rightarrow> string" where
  "manifestURL x u = ApiURL u @ QueryEscape (CmdName u) @ ''/'' @ QueryEscape (plat x) @ ''.json''"

definition fetchInfo :: "externals \<Rightarrow> world \<Rightarrow> Updater \<Rightarrow> (error + Info) \<times> world" where
  "fetchInfo x w u =
     (case fetch w u (manifestURL x u) of
        (Inl err, w') \<Rightarrow> (Inl err, w')
      | (Inr r, w') \<Rightarrow>
          (case json_Decode x r of
             Inl err \<Rightarrow> (Inl err, w')
           | Inr info \<Rightarrow>
               (if Version info \<noteq> [] \<and> length (Sha256 info) \<noteq> sha256_Size
                then (Inl (ErrBadCmdHash sha256_Size (length (Sha256 info))), w')
                else (Inr info, w'))))"

definition verifySha :: "externals \<Rightarrow> bytes \<Rightarrow> bytes \<Rightarrow> bool" where
  "verifySha x bin sha = (sha256_Sum x bin = sha)"

definition verifySignature :: "externals \<Rightarrow> rsa_PublicKey option \<Rightarrow> bytes \<Rightarrow> bytes option \<Rightarrow> bool" where
  "verifySignature x pk bin sig =
     (case pk of
        None \<Rightarrow> True
      | Some k \<Rightarrow>
          (case rsa_VerifyPKCS1v15 x k (sha256_Sum x bin) (case sig of None \<Rightarrow> [] | Some s \<Rightarrow> s) of
             Some err \<Rightarrow> False
           | None \<Rightarrow> True))"

definition patchURL :: "externals \<Rightarrow> Updater \<Rightarrow> Info \<Rightarrow> string" where
  "patchURL x u info =
     DiffURL u @ QueryEscape (CmdName u) @ ''/'' @ QueryEscape (CurrentVersion u) @ ''/''
       @ QueryEscape (Version info) @ ''/'' @ QueryEscape (plat x)"

definition binURL :: "externals \<Rightarrow> Updater \<Rightarrow> Info \<Rightarrow> string" where
  "binURL x u info =
     BinURL u @ QueryEscape (CmdName u) @ ''/'' @ QueryEscape (Version info) @ ''/''
       @ QueryEscape (plat x) @ ''.gz''"

definition fetchAndApplyPatch ::
  "externals \<Rightarrow> world \<Rightarrow> Updater \<Rightarrow> Info \<Rightarrow> bytes \<Rightarrow> (bytes \<times> error option) \<times> world" where
  "fetchAndApplyPatch x w u info old =
     (case fetch w u (patchURL x u info) of
        (Inl err, w') \<Rightarrow> (([], Some err), w')
      | (Inr r, w') \<Rightarrow> (binarydist_Patch x old r, w'))"

definition fetchAndVerifyPatch ::
  "externals \<Rightarrow> world \<Rightarrow> Updater \<Rightarrow> Info \<Rightarrow> bytes \<Rightarrow> (error + bytes) \<times> world" where
  "fetchAndVerifyPatch x w u info old =
     (case fetchAndApplyPatch x w u info old of
        ((bin, Some err), w') \<Rightarrow> (Inl err, w')
      | ((bin, None), w') \<Rightarrow>
          (if \<not> verifySha x bin (Sha256 info) then (Inl ErrHashMismatch, w')
           else if \<not> verifySignature x (PublicKey u) bin (Signature info)
             then (Inl ErrSignatureMismatch, w')
           else (Inr bin, w')))"

definition fetchBin :: "externals \<Rightarrow> world \<Rightarrow> Updater \<Rightarrow> Info \<Rightarrow> (error + bytes) \<times> world" where
  "fetchBin x w u info =
     (case fetch w u (binURL x u info) of
        (Inl err, w') \<Rightarrow> (Inl err, w')
      | (Inr r, w') \<Rightarrow>
          (case gzip_Read x r of
             Inl err \<Rightarrow> (Inl err, w')
           | Inr buf \<Rightarrow> (Inr buf, w')))"

definition fetchAndVerifyFullBin ::
  "externals \<Rightarrow> world \<Rightarrow> Updater \<Rightarrow> Info \<Rightarrow> (error + bytes) \<times> world" where
  "fetchAndVerifyFullBin x w u info =
     (case fetchBin x w u info of
        (Inl err, w') \<Rightarrow> (Inl err, w')
      | (Inr bin, w') \<Rightarrow>
          (if \<not> verifySha x bin (Sha256 info) then (Inl ErrHashMismatch, w')
           else if \<not> verifySignature x (PublicKey u) bin (Signature info)
             then (Inl ErrSignatureMismatch, w')
           else (Inr bin, w')))"

subsection \<open>Update and BackgroundRun\<close>

definition logPrintln :: "world \<Rightarrow> log_line \<Rightarrow> world" where
  "logPrintln w l = w\<lparr>logged := logged w @ [l]\<rparr>"

text \<open>
  The second half of \<open>Update\<close>: the binary goes to \<open>up.FromStream\<close>, which returns the
  pair \<open>(err, errRecover)\<close>.
\<close>

definition applyBinary :: "world \<Rightarrow> Info \<Rightarrow> bytes \<Rightarrow> (error + Info) \<times> world" where
  "applyBinary w info bin =
     (let w' = w\<lparr>installed := installed w @ [bin]\<rparr> in
      case up_FromStream w bin of
        (err, Some errRecover) \<Rightarrow> (Inl (ErrUpdateAndRecovery err errRecover), w')
      | (Some err, None) \<Rightarrow> (Inl err, w')
      | (None, None) \<Rightarrow> (Inr info, w'))"

text \<open>
  The fallback of \<open>Update\<close>: entered with the error of the patch stage, whatever it is;
  it logs and then fetches and verifies the full binary.
\<close>

definition fallbackFullBin ::
  "externals \<Rightarrow> world \<Rightarrow> Updater \<Rightarrow> Info \<Rightarrow> error \<Rightarrow> (error + bytes) \<times> world" where
  "fallbackFullBin x w u info err =
     (let w1 = (if err = ErrHashMismatch then logPrintln w LogHashMismatchPatched
                else if DiffURL u \<noteq> [] then logPrintln w (LogErrorPatching err)
                else w) in
      case fetchAndVerifyFullBin x w1 u info of
        (Inl err', w2) \<Rightarrow>
          (Inl err',
           if err' = ErrHashMismatch then logPrintln w2 LogHashMismatchFull
           else logPrintln w2 (LogErrorFetchingFull err'))
      | (Inr bin, w2) \<Rightarrow> (Inr bin, w2))"

definition Update :: "externals \<Rightarrow> world \<Rightarrow> Updater \<Rightarrow> (error + Info) result \<times> world" where
  "Update x w u =
     (case getTargetAbsoluteDir w u of
        Panicked err \<Rightarrow> (Panicked err, w)
      | Returned path \<Rightarrow>
          (case files w path of
             Inl err \<Rightarrow> (Returned (Inl err), w)
           | Inr old \<Rightarrow>
               (case fetchInfo x w u of
                  (Inl err, w1) \<Rightarrow> (Returned (Inl err), w1)
                | (Inr info, w1) \<Rightarrow>
                    (if Version info = [] then (Returned (Inr emptyInfo), w1)
                     else if Version info = CurrentVersion u then (Returned (Inr emptyInfo), w1)
                     else if PublicKey u \<noteq> None \<and> Signature info = None
                       then (Returned (Inl ErrNoSignature), w1)
                     else
                       (case (case fetchAndVerifyPatch x w1 u info old of
                                (Inl err, w2) \<Rightarrow> fallbackFullBin x w2 u info err
                              | (Inr bin, w2) \<Rightarrow> (Inr bin, w2)) of
                          (Inl err, w3) \<Rightarrow> (Returned (Inl err), w3)
                        | (Inr bin, w3) \<Rightarrow>
                            (case applyBinary w3 info bin of (r, w4) \<Rightarrow> (Returned r, w4)))))))"

definition BackgroundRun :: "externals \<Rightarrow> world \<Rightarrow> Updater \<Rightarrow> (error + Info) result \<times> world" where
  "BackgroundRun x w u =
     (case getExecRelativeDir x w u (Dir u) of
        Panicked err \<Rightarrow> (Panicked err, w)
      | Returned d \<Rightarrow>
          (case mkdir_failure w d of
             Some err \<Rightarrow> (Returned (Inl err), w)
           | None \<Rightarrow>
               (case WantUpdate x w u of
                  Panicked err \<Rightarrow> (Panicked err, w)
                | Returned False \<Rightarrow> (Returned (Inr emptyInfo), w)
                | Returned True \<Rightarrow>
                    (case up_CanUpdate w of
                       Some err \<Rightarrow> (Returned (Inl err), w)
                     | None \<Rightarrow>
                         (case SetUpdateTime x w u of
                            (Panicked err, w1) \<Rightarrow> (Panicked err, w1)
                          | (Returned ok, w1) \<Rightarrow> Update x w1 u)))))"

subsection \<open>The release builder\<close>

text \<open>
  The output directory is a finite table from paths to nodes. A path is the list of its
  components below \<open>genDir\<close>; the empty path is \<open>genDir\<close> itself. The version and the
  platform are taken as single path components, so that \<open>filepath.Join\<close> is the list of
  its arguments. The source binary lies outside the output directory: \<open>CreateUpdate\<close>
  takes what \<open>ioutil.ReadFile(path)\<close> returns.
\<close>

datatype node = File bytes | Directory

type_synonym fpath = "string list"
type_synonym tree = "(fpath \<times> node) list"

datatype build_result = Completed tree | BuildPanicked error | Exited nat

definition ioutil_WriteFile :: "tree \<Rightarrow> fpath \<Rightarrow> bytes \<Rightarrow> error option \<times> tree" where
  "ioutil_WriteFile fs p b =
     (if p \<noteq> [] \<and> map_of fs (butlast p) = Some Directory \<and> map_of fs p \<noteq> Some Directory
      then (None, AList.update p (File b) fs)
      else (Some (ErrOther ''open: cannot write file''), fs))"

definition os_Mkdir :: "tree \<Rightarrow> fpath \<Rightarrow> error option \<times> tree" where
  "os_Mkdir fs p =
     (if p \<noteq> [] \<and> map_of fs (butlast p) = Some Directory \<and> map_of fs p = None
      then (None, AList.update p Directory fs)
      else (Some (ErrOther ''mkdir: cannot create directory''), fs))"

fun mkdirs :: "tree \<Rightarrow> fpath list \<Rightarrow> error option \<times> tree" where
  "mkdirs fs [] = (None, fs)"
| "mkdirs fs (q # qs) =
     (case map_of fs q of
        Some (File b) \<Rightarrow> (Some (ErrOther ''mkdir: not a directory''), fs)
      | Some Directory \<Rightarrow> mkdirs fs qs
      | None \<Rightarrow> mkdirs (AList.update q Directory fs) qs)"

definition os_MkdirAll :: "tree \<Rightarrow> fpath \<Rightarrow> error option \<times> tree" where
  "os_MkdirAll fs p = mkdirs fs (map (\<lambda>n. take n p) [0..<Suc (length p)])"

definition os_Open :: "tree \<Rightarrow> fpath \<Rightarrow> error + node" where
  "os_Open fs p = (case map_of fs p of None \<Rightarrow> Inl ErrNotExist | Some nd \<Rightarrow> Inr nd)"

text \<open>\<open>ioutil.ReadDir\<close>: the entries of a directory, sorted by name, each with \<open>IsDir\<close>.\<close>

definition ioutil_ReadDir :: "tree \<Rightarrow> fpath \<Rightarrow> error + (string \<times> bool) list" where
  "ioutil_ReadDir fs d =
     (if map_of fs d = Some Directory
      then Inr (sort_key fst
             (map (\<lambda>(p, nd). (last p, nd = Directory))
                (filter (\<lambda>(p, nd). p \<noteq> [] \<and> butlast p = d) fs)))
      else Inl (ErrOther ''open: cannot read directory''))"

text \<open>\<open>newGzReader\<close> panics when \<open>gzip.NewReader\<close> fails; a directory cannot be read.\<close>

definition newGzReader :: "externals \<Rightarrow> node \<Rightarrow> error + bytes" where
  "newGzReader x nd =
     (case nd of
        Directory \<Rightarrow> Inl (ErrOther ''read: is a directory'')
      | File b \<Rightarrow> gzip_Read x b)"

definition GenerateSha256 :: "externals \<Rightarrow> error + bytes \<Rightarrow> bytes" where
  "GenerateSha256 x src = sha256_Sum x (case src of Inl err \<Rightarrow> [] | Inr b \<Rightarrow> b)"

text \<open>
  The body of the loop of \<open>CreateUpdate\<close>, for an entry that is a directory other than
  the version: \<open>continue\<close> is \<open>Completed\<close> with the tree as it is then.
\<close>

definition createPatch :: "externals \<Rightarrow> string \<Rightarrow> string \<Rightarrow> tree \<Rightarrow> string \<Rightarrow> build_result" where
  "createPatch x version platform fs name =
     (let fs1 = snd (os_Mkdir fs [name, version]) in
      case os_Open fs1 [name, platform @ ''.gz''] of
        Inl err \<Rightarrow> Completed fs1
      | Inr old \<Rightarrow>
          (case os_Open fs1 [version, platform @ ''.gz''] of
             Inl err \<Rightarrow> Exited 1
           | Inr newF \<Rightarrow>
               (case newGzReader x old of
                  Inl err \<Rightarrow> BuildPanicked err
                | Inr ar \<Rightarrow>
                    (case newGzReader x newF of
                       Inl err \<Rightarrow> BuildPanicked err
                     | Inr br \<Rightarrow>
                         (case binarydist_Diff x ar br of
                            Inl err \<Rightarrow> BuildPanicked err
                          | Inr patch \<Rightarrow>
                              Completed
                                (snd (ioutil_WriteFile fs1 [name, version, platform] patch)))))))"

text \<open>The loop of \<open>CreateUpdate\<close> over the entries \<open>ioutil.ReadDir(genDir)\<close> returned.\<close>

fun createPatches ::
  "externals \<Rightarrow> string \<Rightarrow> string \<Rightarrow> tree \<Rightarrow> (string \<times> bool) list \<Rightarrow> build_result" where
  "createPatches x version platform fs [] = Completed fs"
| "createPatches x version platform fs ((name, isDir) # rest) =
     (if isDir = False then createPatches x version platform fs rest
      else if name = version then createPatches x version platform fs rest
      else
        (case createPatch x version platform fs name of
           Completed fs' \<Rightarrow> createPatches x version platform fs' rest
         | BuildPanicked err \<Rightarrow> BuildPanicked err
         | Exited n \<Rightarrow> Exited n))"

definition CreateUpdate ::
  "externals \<Rightarrow> Info \<Rightarrow> error + bytes \<Rightarrow> string \<Rightarrow> tree \<Rightarrow> rsa_PrivateKey option \<Rightarrow> build_result" where
  "CreateUpdate x version src platform genDir pk =
     (let c = \<lparr>Version = Version version, Sha256 = GenerateSha256 x src, Signature = None\<rparr> in
      case (case pk of
              None \<Rightarrow> Inr c
            | Some k \<Rightarrow>
                (case rsa_SignPKCS1v15 x k (Sha256 c) of
                   Inl err \<Rightarrow> Inl err
                 | Inr sig \<Rightarrow> Inr (c\<lparr>Signature := Some sig\<rparr>))) of
        Inl err \<Rightarrow> BuildPanicked err
      | Inr c \<Rightarrow>
          (let b = (case json_MarshalIndent x c of Inl err \<Rightarrow> [] | Inr b \<Rightarrow> b) in
           case ioutil_WriteFile genDir [platform @ ''.json''] b of
             (Some err, fs1) \<Rightarrow> BuildPanicked err
           | (None, fs1) \<Rightarrow>
               (let fs2 = snd (os_MkdirAll fs1 [Version version]) in
                case src of
                  Inl err \<Rightarrow> BuildPanicked err
                | Inr f \<Rightarrow>
                    (let fs3 = snd (ioutil_WriteFile fs2 [Version version, platform @ ''.gz''] (gzip_Write x f));
                         entries = (case ioutil_ReadDir fs3 [] of Inl err \<Rightarrow> [] | Inr es \<Rightarrow> es)
                     in createPatches x (Version version) platform fs3 entries))))"

text \<open>What the specification asks of the output directory after a publish.\<close>

definition is_file :: "tree \<Rightarrow> fpath \<Rightarrow> bool" where
  "is_file fs p = (case map_of fs p of Some (File b) \<Rightarrow> True | _ \<Rightarrow> False)"

text \<open>
  Two notions for the loop. \<open>patched\<close>: the release \<open>D\<close> of the tree \<open>fs0\<close> the loop
  started from holds a gzip file for the platform, and the tree \<open>fs\<close> holds, at
  \<open>D/version/platform\<close>, the delta from its content to the new binary \<open>br\<close>. \<open>patch_inv\<close>: the
  tree \<open>fs\<close> agrees with \<open>fs0\<close> on the paths of at most two components other than
  \<open>D/version\<close>, no \<open>D/version\<close> is a regular file and no \<open>D/version/platform\<close> is a
  directory.
\<close>

definition patched :: "externals \<Rightarrow> tree \<Rightarrow> tree \<Rightarrow> string \<Rightarrow> string \<Rightarrow> bytes \<Rightarrow> string \<Rightarrow> bool" where
  "patched x fs0 fs version platform br D =
     (\<exists>og ar delta.
        map_of fs0 [D, platform @ ''.gz''] = Some (File og) \<and> gzip_Read x og = Inr ar
        \<and> binarydist_Diff x ar br = Inr delta
        \<and> map_of fs [D, version, platform] = Some (File delta))"

definition patch_inv :: "tree \<Rightarrow> tree \<Rightarrow> string \<Rightarrow> string \<Rightarrow> bool" where
  "patch_inv fs0 fs version platform =
     ((\<forall>q. length q \<le> 2 \<and> (\<forall>D. q \<noteq> [D, version]) \<longrightarrow> map_of fs q = map_of fs0 q)
      \<and> (\<forall>D b. map_of fs [D, version] \<noteq> Some (File b))
      \<and> (\<forall>D. map_of fs [D, version, platform] \<noteq> Some Directory))"

text \<open>An output directory with one earlier release, 1.0, for the platform.\<close>

definition one_release_tree :: tree where
  "one_release_tree =
     [([], Directory), ([''1.0''], Directory), ([''1.0'', ''linux-amd64.gz''], File ''OLD'')]"

subsection \<open>Example instances\<close>

text \<open>
  Concrete libraries, worlds and updaters on which the theorems below are run. The
  libraries are small stand-ins with the interface of the real ones: a time stamp is the
  decimal count of seconds, the digest pads or cuts its input to 32 bytes, a
  signature verifies when it equals the digest, a patch is the new binary itself, gzip is
  the identity, and the JSON decoder knows a few payloads by name.
\<close>

function decimal :: "nat \<Rightarrow> string" where
  "decimal n =
     (if n < 10 then [''0123456789'' ! n]
      else decimal (n div 10) @ [''0123456789'' ! (n mod 10)])"
  by pat_completeness auto
termination
  by (relation "measure id") auto

declare decimal.simps [simp del]

definition stamp_Parse :: "string \<Rightarrow> error + instant" where
  "stamp_Parse s =
     (if s \<noteq> [] \<and> list_all (\<lambda>c. c \<in> set ''0123456789'') s
      then Inr (int (foldl (\<lambda>a c. 10 * a + (of_char c - 48)) 0 s) * time_Second)
      else Inl (ErrOther ''parsing time: cannot parse''))"

definition example_digest :: "bytes \<Rightarrow> bytes" where
  "example_digest b = take 32 (b @ ''................................'')"

definition example_manifests :: "(bytes \<times> Info) list" where
  "example_manifests =
     [(''{}'', emptyInfo),
      (''manifest 1.3 signed'',
         \<lparr>Version = ''1.3'', Sha256 = example_digest ''NEW'', Signature = Some ''forged''\<rparr>),
      (''manifest 1.3 short hash'',
         \<lparr>Version = ''1.3'', Sha256 = ''abc'', Signature = None\<rparr>),
      (''manifest no version short hash'',
         \<lparr>Version = [], Sha256 = ''abc'', Signature = None\<rparr>),
      (''manifest 1.3 unsigned'',
         \<lparr>Version = ''1.3'', Sha256 = example_digest ''NEW'', Signature = None\<rparr>)]"

definition example_externals :: externals where
  "example_externals =
     \<lparr>plat = ''linux-amd64'',
      filepath_Dir = (\<lambda>p. rev (drop 1 (dropWhile (\<lambda>c. c \<noteq> CHR ''/'') (rev p)))),
      filepath_Join = (\<lambda>a b. a @ ''/'' @ b),
      rfc3339_Text = (\<lambda>s. decimal (nat s)),
      time_Parse = stamp_Parse,
      sha256_Sum = example_digest,
      rsa_VerifyPKCS1v15 =
        (\<lambda>k hashed sig. if sig = hashed then None else Some (ErrOther ''crypto/rsa: verification error'')),
      json_Decode =
        (\<lambda>b. case map_of example_manifests b of
                None \<Rightarrow> Inl (ErrOther ''invalid character'')
              | Some info \<Rightarrow> Inr info),
      binarydist_Patch = (\<lambda>old p. (p, None)),
      binarydist_Diff = (\<lambda>old new. Inr new),
      gzip_Read = (\<lambda>b. Inr b),
      gzip_Write = (\<lambda>b. b),
      json_MarshalIndent = (\<lambda>info. Inr (Version info)),
      rsa_SignPKCS1v15 = (\<lambda>k hashed. Inr hashed)\<rparr>"

definition example_world :: world where
  "example_world =
     \<lparr>time_Now = 63900000000000000000,
      osext_Executable = Inr ''/opt/app/myapp'',
      files = (\<lambda>p. if p = ''/opt/app/myapp'' then Inr ''OLD''
                    else if p = ''/opt/app/locked/cktime'' then Inl (ErrOther ''permission denied'')
                    else if p = ''/opt/app/broken/cktime'' then Inr ''not a time stamp''
                    else Inl ErrNotExist),
      write_failure = (\<lambda>p. None),
      mkdir_failure = (\<lambda>p. None),
      rand_source = 7,
      up_CanUpdate = None,
      up_FromStream = (\<lambda>b. (None, None)),
      defaultHTTPRequester = (\<lambda>h url. Inl (ErrOther ''no network'')),
      fetched = [],
      logged = [],
      installed = []\<rparr>"

text \<open>\<open>createUpdater\<close> of the package's tests, with the requester as its argument.\<close>

definition createUpdater :: "requester \<Rightarrow> Updater" where
  "createUpdater mr =
     \<lparr>CurrentVersion = ''1.2'',
      ApiURL = ''http://api.updates.yourdomain.com/'',
      CmdName = ''myapp'',
      BinURL = ''http://bin.updates.yourdownmain.com/'',
      DiffURL = ''http://diff.updates.yourdomain.com/'',
      Dir = ''update/'',
      ForceCheck = False,
      CheckTime = 0,
      RandomizeTime = 0,
      Requester = Some mr,
      PublicKey = None,
      Target = []\<rparr>"

definition createUpdaterWithEscapedCharacters :: "requester \<Rightarrow> Updater" where
  "createUpdaterWithEscapedCharacters mr =
     (createUpdater mr)\<lparr>CurrentVersion := ''1.2+foobar'', CmdName := ''myapp+foo''\<rparr>"

text \<open>
  Requesters: one that answers every URL with the empty manifest; one that serves a
  signed manifest and a patch and has no full binary; one that serves the manifest and a
  patch at the URL the patch stage asks for when \<open>DiffURL\<close> is empty; one that serves
  the payload it is given for every URL; and one that serves an unsigned manifest, and a
  patch and a full binary at every other URL.
\<close>

definition empty_manifest_requester :: requester where
  "empty_manifest_requester h url = (Some ''{}'', None)"

definition patch_only_requester :: requester where
  "patch_only_requester h url =
     (if url = ''http://api.updates.yourdomain.com/myapp/linux-amd64.json''
        then (Some ''manifest 1.3 signed'', None)
      else if url = ''http://diff.updates.yourdomain.com/myapp/1.2/1.3/linux-amd64''
        then (Some ''NEW'', None)
      else (None, Some (ErrOther ''Bad status code on binary: 404'')))"

definition relative_patch_requester :: requester where
  "relative_patch_requester h url =
     (if url = ''http://api.updates.yourdomain.com/myapp/linux-amd64.json''
        then (Some ''manifest 1.3 signed'', None)
      else if url = ''myapp/1.2/1.3/linux-amd64''
        then (Some ''NEW'', None)
      else (None, Some (ErrOther ''Bad status code: 404'')))"

definition short_hash_requester :: "bytes \<Rightarrow> requester" where
  "short_hash_requester payload h url = (Some payload, None)"

definition unsigned_manifest_requester :: requester where
  "unsigned_manifest_requester h url =
     (if url = ''http://api.updates.yourdomain.com/myapp/linux-amd64.json''
        then (Some ''manifest 1.3 unsigned'', None)
      else (Some ''NEW'', None))"

definition example_key :: rsa_PublicKey where
  "example_key = RsaPublicKey 3233 17"

text \<open>
  Output directories of the release builder: one where a regular file has the name of
  the version to publish, and one where release 1.0 holds a regular file of that name.
\<close>

definition blocked_version_tree :: tree where
  "blocked_version_tree = [([], Directory), ([''1.1''], File ''notes'')]"

definition blocked_patch_tree :: tree where
  "blocked_patch_tree =
     [([], Directory),
      ([''1.0''], Directory),
      ([''1.0'', ''linux-amd64.gz''], File ''OLD''),
      ([''1.0'', ''1.1''], File ''notes'')]"

section \<open>Properties of the scheduler\<close>

subsection \<open>Arithmetic of durations\<close>

lemma sint_succ: "sint (r :: 64 word) < 9223372036854775807 \<Longrightarrow> sint (r + 1) = sint r + 1"
proof -
  assume a: "sint r < 9223372036854775807"
  have lo: "- (2 ^ 63) \<le> sint r" using sint_greater_eq [of r] by simp
  have "sint (r + 1) = signed_take_bit 63 (sint r + 1)"
    by (simp add: sint_word_ariths)
  also have "\<dots> = sint r + 1"
    using a lo by (intro signed_take_bit_int_eq_self) auto
  finally show ?thesis .
qed

lemma sint_hours:
  assumes "0 \<le> sint (c :: 64 word)" "(sint c + int m) * 3600000000000 < 2 ^ 63"
  shows "sint (c * time_Hour + of_nat m * time_Hour) = (sint c + int m) * 3600000000000"
proof -
  have e: "(word_of_int ((sint c + int m) * 3600000000000) :: 64 word)
      = c * time_Hour + of_nat m * time_Hour"
    by (simp add: time_Hour_def algebra_simps)
  have "sint (word_of_int ((sint c + int m) * 3600000000000) :: 64 word)
      = signed_take_bit 63 ((sint c + int m) * 3600000000000)"
    by (simp only: signed_of_int) simp
  also have "\<dots> = (sint c + int m) * 3600000000000"
    using assms by (intro signed_take_bit_int_eq_self) auto
  finally show ?thesis by (simp only: e)
qed

lemma sint_1000_hours: "sint (1000 * time_Hour) = 3600000000000000"
  by (simp add: time_Hour_def)

lemma getExecRelativeDir_rand [simp]:
  "getExecRelativeDir x (w\<lparr>rand_source := n\<rparr>) u d = getExecRelativeDir x w u d"
  by (simp add: getExecRelativeDir_def getTargetAbsoluteDir_def)

lemma SetUpdateTime_eq:
  assumes c: "0 \<le> sint (CheckTime u)" and r: "0 \<le> sint (RandomizeTime u)"
    and fit: "(sint (CheckTime u) + sint (RandomizeTime u)) * 3600000000000 < 2 ^ 63"
    and p: "getExecRelativeDir x w u (Dir u @ upcktimePath) = Returned path"
  shows "SetUpdateTime x w u =
           (case writeTime x w path
                   (time_Now w
                    + (sint (CheckTime u) + int (rand_source w mod nat (sint (RandomizeTime u) + 1)))
                      * 3600000000000) of
              (ok, w') \<Rightarrow> (Returned ok, w'))"
proof -
  let ?m = "rand_source w mod nat (sint (RandomizeTime u) + 1)"
  have small: "sint (RandomizeTime u) < 9223372036854775807"
    using c r fit by simp
  have s: "sint (RandomizeTime u + 1) = sint (RandomizeTime u) + 1"
    using small by (rule sint_succ)
  have m: "int ?m \<le> sint (RandomizeTime u)"
  proof -
    have "?m < nat (sint (RandomizeTime u) + 1)" using r by (intro mod_less_divisor) simp
    then show ?thesis using r by linarith
  qed
  have i: "rand_Intn w (RandomizeTime u + 1) = Returned (of_nat ?m)"
    using r by (simp add: rand_Intn_def s)
  have "(sint (CheckTime u) + int ?m) * 3600000000000 < 2 ^ 63"
    using m fit by simp
  then have h: "sint (CheckTime u * time_Hour + of_nat ?m * time_Hour)
      = (sint (CheckTime u) + int ?m) * 3600000000000"
    using c by (intro sint_hours)
  show ?thesis
    by (simp add: SetUpdateTime_def p i Let_def time_Add_def h split: prod.splits)
qed

subsection \<open>WantUpdate\<close>

text \<open>
  Claim C4. \<open>WantUpdate\<close> returns false exactly when \<open>CurrentVersion\<close> is \<open>"dev"\<close>, or
  \<open>ForceCheck\<close> is false and \<open>NextUpdate\<close> returns an instant strictly after the current
  time; it returns true exactly in the other cases in which it returns; and for
  \<open>CurrentVersion = "dev"\<close> it returns false in every world (whatever the cooldown file
  holds, and whether or not the path of the executable can be found) and for either value
  of \<open>ForceCheck\<close>. The only other outcome is the panic of \<open>getTargetAbsoluteDir\<close>.
\<close>

theorem WantUpdate_false_iff:
  "((WantUpdate x w u = Returned False) \<longleftrightarrow>
      (CurrentVersion u = ''dev'' \<or>
       (\<not> ForceCheck u \<and> (\<exists>t. NextUpdate x w u = Returned t \<and> time_Now w < t)))) \<and>
   ((WantUpdate x w u = Returned True) \<longleftrightarrow>
      (CurrentVersion u \<noteq> ''dev'' \<and>
       (ForceCheck u \<or> (\<exists>t. NextUpdate x w u = Returned t \<and> t \<le> time_Now w)))) \<and>
   WantUpdate x w (u\<lparr>CurrentVersion := ''dev''\<rparr>) = Returned False"
  by (cases "NextUpdate x w u") (auto simp: WantUpdate_def time_After_def)

subsection \<open>Reading the cooldown file\<close>

text \<open>
  Claim C8. \<open>readTime\<close> returns the zero instant when the file does not exist, and the
  current time plus 1000 hours when reading fails for another reason or the content does
  not parse; a content that parses is returned as it is. Its result is an instant, with no
  error beside it, and \<open>NextUpdate\<close> returns it whenever the path of the state file can be
  built.
\<close>

theorem readTime_cases:
  "(files w p = Inl ErrNotExist \<longrightarrow> readTime x w p = time_Zero) \<and>
   (\<forall>e. files w p = Inl e \<and> e \<noteq> ErrNotExist \<longrightarrow> readTime x w p = time_Now w + 1000 * 3600000000000) \<and>
   (\<forall>s e. files w p = Inr s \<and> time_Parse x s = Inl e \<longrightarrow> readTime x w p = time_Now w + 1000 * 3600000000000) \<and>
   (\<forall>s t. files w p = Inr s \<and> time_Parse x s = Inr t \<longrightarrow> readTime x w p = t) \<and>
   (getExecRelativeDir x w u (Dir u @ ''cktime'') = Returned p \<longrightarrow>
      NextUpdate x w u = Returned (readTime x w p))"
  by (simp add: readTime_def NextUpdate_def upcktimePath_def time_Add_def sint_1000_hours)

theorem readTime_cases_witness:
  "readTime example_externals example_world ''/opt/app/update/cktime'' = time_Zero
   \<and> readTime example_externals example_world ''/opt/app/locked/cktime''
       = time_Now example_world + 1000 * 3600000000000
   \<and> readTime example_externals example_world ''/opt/app/broken/cktime''
       = time_Now example_world + 1000 * 3600000000000
   \<and> NextUpdate example_externals example_world (createUpdater empty_manifest_requester) = Returned time_Zero"
proof -
  let ?x = example_externals and ?w = example_world and ?u = "createUpdater empty_manifest_requester"
  have a: "files ?w ''/opt/app/update/cktime'' = Inl ErrNotExist"
    by (simp add: example_world_def)
  have b: "files ?w ''/opt/app/locked/cktime'' = Inl (ErrOther ''permission denied'')"
    by (simp add: example_world_def)
  have c: "files ?w ''/opt/app/broken/cktime'' = Inr ''not a time stamp''"
    by (simp add: example_world_def)
  have d: "time_Parse ?x ''not a time stamp'' = Inl (ErrOther ''parsing time: cannot parse'')"
    by (simp add: example_externals_def stamp_Parse_def)
  have p: "getExecRelativeDir ?x ?w ?u (Dir ?u @ ''cktime'') = Returned ''/opt/app/update/cktime''"
    by (simp add: getExecRelativeDir_def getTargetAbsoluteDir_def example_externals_def
        example_world_def createUpdater_def)
  from readTime_cases [of ?w "''/opt/app/update/cktime''" ?x ?u] a p
  have 1: "readTime ?x ?w ''/opt/app/update/cktime'' = time_Zero"
    and 4: "NextUpdate ?x ?w ?u = Returned time_Zero" by simp_all
  from readTime_cases [of ?w "''/opt/app/locked/cktime''" ?x ?u] b
  have 2: "readTime ?x ?w ''/opt/app/locked/cktime'' = time_Now ?w + 1000 * 3600000000000" by simp
  from readTime_cases [of ?w "''/opt/app/broken/cktime''" ?x ?u] c d
  have 3: "readTime ?x ?w ''/opt/app/broken/cktime'' = time_Now ?w + 1000 * 3600000000000" by simp
  from 1 2 3 4 show ?thesis by simp
qed

subsection \<open>SetUpdateTime\<close>

text \<open>
  Claim C9. For every updater with \<open>RandomizeTime \<le> -1\<close>, \<open>SetUpdateTime\<close> panics and
  leaves the world as it was: \<open>rand.Intn\<close> is called with \<open>RandomizeTime + 1 \<le> 0\<close> (or the
  path of the executable was not found before that).
\<close>

theorem SetUpdateTime_panics:
  "sint (RandomizeTime u) \<le> - 1 \<Longrightarrow> \<exists>e. SetUpdateTime x w u = (Panicked e, w)"
proof -
  assume a: "sint (RandomizeTime u) \<le> - 1"
  then have "sint (RandomizeTime u + 1) = sint (RandomizeTime u) + 1"
    by (intro sint_succ) simp
  with a have "rand_Intn w (RandomizeTime u + 1) = Panicked ErrInvalidIntn"
    by (simp add: rand_Intn_def)
  then show ?thesis
    by (cases "getExecRelativeDir x w u (Dir u @ upcktimePath)") (simp_all add: SetUpdateTime_def)
qed

theorem SetUpdateTime_panics_witness:
  "sint (RandomizeTime ((createUpdater empty_manifest_requester)\<lparr>RandomizeTime := - 1\<rparr>)) \<le> - 1
   \<and> (\<exists>e. SetUpdateTime example_externals example_world
              ((createUpdater empty_manifest_requester)\<lparr>RandomizeTime := - 1\<rparr>)
            = (Panicked e, example_world))"
proof -
  have h: "sint (RandomizeTime ((createUpdater empty_manifest_requester)\<lparr>RandomizeTime := - 1\<rparr>)) \<le> - 1"
    by simp
  from SetUpdateTime_panics [OF h] h show ?thesis by blast
qed


lemma getExecRelativeDir_files [simp]:
  "getExecRelativeDir x (w\<lparr>files := f\<rparr>) u d = getExecRelativeDir x w u d"
  by (simp add: getExecRelativeDir_def getTargetAbsoluteDir_def)

lemma whole_second:
  fixes N a :: int
  defines "T \<equiv> N + a * 3600000000000"
  shows "T - T mod 1000000000 = N - N mod 1000000000 + a * 3600000000000"
proof -
  have "(N + (a * 3600) * 1000000000) mod 1000000000 = N mod 1000000000"
    by (rule mod_mult_self1)
  moreover have "T = N + (a * 3600) * 1000000000" by (simp add: T_def)
  ultimately have "T mod 1000000000 = N mod 1000000000" by (simp only:)
  then show ?thesis by (simp add: T_def)
qed

lemma example_stamp_text:
  "rfc3339_Text example_externals 63900385200 = ''63900385200''"
  "rfc3339_Text example_externals 54676628726 = ''54676628726''"
  "rfc3339_Text example_externals 63900003600 = ''63900003600''"
  by (simp_all add: example_externals_def decimal.simps)

lemma example_stamp_parse:
  "time_Parse example_externals ''63900385200'' = Inr 63900385200000000000"
  "time_Parse example_externals ''54676628726'' = Inr 54676628726000000000"
  "time_Parse example_externals ''63900003600'' = Inr 63900003600000000000"
  by (simp_all add: example_externals_def stamp_Parse_def time_Second_def)

lemma example_cktime_path:
  "osext_Executable w = Inr ''/opt/app/myapp'' \<Longrightarrow> Target u = [] \<Longrightarrow>
   getExecRelativeDir example_externals w u d = Returned (''/opt/app/'' @ d)"
  by (simp add: getExecRelativeDir_def getTargetAbsoluteDir_def example_externals_def)

lemma overflown_wait: "sint (2562048 * time_Hour) = - 9223371273709551616"
  by (simp add: time_Hour_def)

text \<open>
  Claim C6, as amended. For \<open>CheckTime = c \<ge> 0\<close> and \<open>RandomizeTime = r \<ge> 0\<close> such that
  \<open>c + r\<close> hours fit a \<open>time.Duration\<close> (\<open>(c + r) * 3600000000000 < 2^63\<close>),
  \<open>SetUpdateTime\<close> at time \<open>t\<close> draws \<open>k\<close>, the draw of the source modulo \<open>r + 1\<close>, so
  \<open>0 \<le> k \<le> r\<close>, and hands \<open>writeTime\<close> the instant \<open>T = t + (c + k) h\<close>, with
  \<open>t + c h \<le> T \<le> t + (c + r) h\<close>. A write that succeeds stores the RFC3339 text of \<open>T\<close>,
  which keeps whole seconds only: the time stamp in the state file is that of \<open>S\<close>, the
  instant \<open>T\<close> cut down to the whole second, and \<open>NextUpdate\<close> returns \<open>S\<close> afterwards when
  the parser reads that text as \<open>S\<close>. The stored \<open>S\<close> satisfies
  \<open>t + c h - 1 s < S \<le> t + (c + r) h\<close>, and it is below \<open>t + c h\<close> exactly when \<open>k = 0\<close> and
  \<open>t\<close> is not on a whole second. Both ends are reached by \<open>T\<close>: the draw 0 gives
  \<open>t + c h\<close> and the draw \<open>r\<close> gives \<open>t + (c + r) h\<close>. (That the draw is uniform is a
  statement about probabilities and is not part of the theorem.)
\<close>

theorem SetUpdateTime_window:
  assumes c: "0 \<le> sint (CheckTime u)" and r: "0 \<le> sint (RandomizeTime u)"
    and fit: "(sint (CheckTime u) + sint (RandomizeTime u)) * 3600000000000 < 2 ^ 63"
    and p: "getExecRelativeDir x w u (Dir u @ upcktimePath) = Returned path"
  shows "(\<exists>k T S. k = rand_source w mod nat (sint (RandomizeTime u) + 1)
            \<and> int k \<le> sint (RandomizeTime u)
            \<and> T = time_Now w + (sint (CheckTime u) + int k) * 3600000000000
            \<and> S = T - T mod 1000000000
            \<and> time_Now w + sint (CheckTime u) * 3600000000000 \<le> T
            \<and> T \<le> time_Now w + (sint (CheckTime u) + sint (RandomizeTime u)) * 3600000000000
            \<and> time_Now w + sint (CheckTime u) * 3600000000000 - 1000000000 < S
            \<and> S \<le> time_Now w + (sint (CheckTime u) + sint (RandomizeTime u)) * 3600000000000
            \<and> (S < time_Now w + sint (CheckTime u) * 3600000000000
                 \<longleftrightarrow> k = 0 \<and> time_Now w mod 1000000000 \<noteq> 0)
            \<and> SetUpdateTime x w u = (case writeTime x w path T of (ok, w') \<Rightarrow> (Returned ok, w'))
            \<and> (write_failure w path = None \<longrightarrow>
                 fst (SetUpdateTime x w u) = Returned True
                 \<and> files (snd (SetUpdateTime x w u)) path = Inr (rfc3339_Text x (S div 1000000000))
                 \<and> (time_Parse x (rfc3339_Text x (S div 1000000000)) = Inr S \<longrightarrow>
                      NextUpdate x (snd (SetUpdateTime x w u)) u = Returned S)))
       \<and> SetUpdateTime x (w\<lparr>rand_source := 0\<rparr>) u =
           (case writeTime x (w\<lparr>rand_source := 0\<rparr>) path
                   (time_Now w + sint (CheckTime u) * 3600000000000) of
              (ok, w') \<Rightarrow> (Returned ok, w'))
       \<and> SetUpdateTime x (w\<lparr>rand_source := nat (sint (RandomizeTime u))\<rparr>) u =
           (case writeTime x (w\<lparr>rand_source := nat (sint (RandomizeTime u))\<rparr>) path
                   (time_Now w + (sint (CheckTime u) + sint (RandomizeTime u)) * 3600000000000) of
              (ok, w') \<Rightarrow> (Returned ok, w'))"
proof (intro conjI)
  let ?N = "time_Now w"
  let ?c = "sint (CheckTime u)"
  let ?r = "sint (RandomizeTime u)"
  let ?m = "rand_source w mod nat (?r + 1)"
  let ?T = "?N + (?c + int ?m) * 3600000000000"
  let ?S = "?T - ?T mod 1000000000"
  have "?m < nat (?r + 1)" using r by (intro mod_less_divisor) simp
  then have m: "int ?m \<le> ?r" using r by linarith
  have e: "SetUpdateTime x w u = (case writeTime x w path ?T of (ok, w') \<Rightarrow> (Returned ok, w'))"
    using c r fit p by (rule SetUpdateTime_eq)
  have lo: "?N + ?c * 3600000000000 \<le> ?T" by simp
  have hi: "?T \<le> ?N + (?c + ?r) * 3600000000000"
    using m by simp
  have S: "?S = ?N - ?N mod 1000000000 + (?c + int ?m) * 3600000000000"
    by (rule whole_second)
  have b0: "0 \<le> ?N mod 1000000000" by simp
  have b1: "?N mod 1000000000 < 1000000000" by simp
  have slo: "?N + ?c * 3600000000000 - 1000000000 < ?S"
    unfolding S using b1 by (simp add: algebra_simps)
  have shi: "?S \<le> ?N + (?c + ?r) * 3600000000000"
    unfolding S using b0 m by (simp add: algebra_simps)
  have below: "?S < ?N + ?c * 3600000000000 \<longleftrightarrow> ?m = 0 \<and> ?N mod 1000000000 \<noteq> 0"
  proof (cases "?m = 0")
    case True
    then show ?thesis unfolding S using b0 by (auto simp add: algebra_simps)
  next
    case False
    then have "1 \<le> int ?m" by simp
    then have "3600000000000 \<le> int ?m * 3600000000000" by simp
    then show ?thesis unfolding S using False b1 by (simp add: algebra_simps)
  qed
  have sd: "?T div 1000000000 = ?S div 1000000000"
  proof -
    have "?S = ?T div 1000000000 * 1000000000" by (simp add: minus_mod_eq_div_mult)
    then show ?thesis by simp
  qed
  have wr: "write_failure w path = None \<longrightarrow>
      fst (SetUpdateTime x w u) = Returned True
      \<and> files (snd (SetUpdateTime x w u)) path = Inr (rfc3339_Text x (?S div 1000000000))
      \<and> (time_Parse x (rfc3339_Text x (?S div 1000000000)) = Inr ?S \<longrightarrow>
            NextUpdate x (snd (SetUpdateTime x w u)) u = Returned ?S)"
  proof
    assume n: "write_failure w path = None"
    let ?txt = "rfc3339_Text x (?S div 1000000000)"
    have "writeTime x w path ?T = (True, w\<lparr>files := (files w)(path := Inr ?txt)\<rparr>)"
      unfolding writeTime_def n time_Format_def time_Second_def sd by simp
    then have s: "SetUpdateTime x w u = (Returned True, w\<lparr>files := (files w)(path := Inr ?txt)\<rparr>)"
      unfolding e by simp
    have g: "NextUpdate x (w\<lparr>files := (files w)(path := Inr stamp)\<rparr>) u = Returned R"
      if "time_Parse x stamp = Inr R" for stamp R
      using that by (simp add: NextUpdate_def p readTime_def)
    have rb: "NextUpdate x (snd (SetUpdateTime x w u)) u = Returned ?S"
      if q: "time_Parse x ?txt = Inr ?S"
      unfolding s snd_conv using q by (rule g)
    show "fst (SetUpdateTime x w u) = Returned True
      \<and> files (snd (SetUpdateTime x w u)) path = Inr ?txt
      \<and> (time_Parse x ?txt = Inr ?S \<longrightarrow> NextUpdate x (snd (SetUpdateTime x w u)) u = Returned ?S)"
      using rb unfolding s by simp
  qed
  show "\<exists>k T S. k = rand_source w mod nat (sint (RandomizeTime u) + 1)
            \<and> int k \<le> sint (RandomizeTime u)
            \<and> T = time_Now w + (sint (CheckTime u) + int k) * 3600000000000
            \<and> S = T - T mod 1000000000
            \<and> time_Now w + sint (CheckTime u) * 3600000000000 \<le> T
            \<and> T \<le> time_Now w + (sint (CheckTime u) + sint (RandomizeTime u)) * 3600000000000
            \<and> time_Now w + sint (CheckTime u) * 3600000000000 - 1000000000 < S
            \<and> S \<le> time_Now w + (sint (CheckTime u) + sint (RandomizeTime u)) * 3600000000000
            \<and> (S < time_Now w + sint (CheckTime u) * 3600000000000
                 \<longleftrightarrow> k = 0 \<and> time_Now w mod 1000000000 \<noteq> 0)
            \<and> SetUpdateTime x w u = (case writeTime x w path T of (ok, w') \<Rightarrow> (Returned ok, w'))
            \<and> (write_failure w path = None \<longrightarrow>
                 fst (SetUpdateTime x w u) = Returned True
                 \<and> files (snd (SetUpdateTime x w u)) path = Inr (rfc3339_Text x (S div 1000000000))
                 \<and> (time_Parse x (rfc3339_Text x (S div 1000000000)) = Inr S \<longrightarrow>
                      NextUpdate x (snd (SetUpdateTime x w u)) u = Returned S))"
    apply (rule exI [of _ ?m])
    apply (rule exI [of _ ?T])
    apply (rule exI [of _ ?S])
    apply (intro conjI refl m lo hi slo shi below e wr)
    done
next
  have "SetUpdateTime x (w\<lparr>rand_source := 0\<rparr>) u =
      (case writeTime x (w\<lparr>rand_source := 0\<rparr>) path
         (time_Now (w\<lparr>rand_source := 0\<rparr>)
           + (sint (CheckTime u) + int (rand_source (w\<lparr>rand_source := 0\<rparr>) mod nat (sint (RandomizeTime u) + 1)))
             * 3600000000000) of (ok, w') \<Rightarrow> (Returned ok, w'))"
    using c r fit p by (intro SetUpdateTime_eq) simp_all
  then show "SetUpdateTime x (w\<lparr>rand_source := 0\<rparr>) u =
           (case writeTime x (w\<lparr>rand_source := 0\<rparr>) path
                   (time_Now w + sint (CheckTime u) * 3600000000000) of
              (ok, w') \<Rightarrow> (Returned ok, w'))"
    by simp
next
  let ?w = "w\<lparr>rand_source := nat (sint (RandomizeTime u))\<rparr>"
  have "SetUpdateTime x ?w u =
      (case writeTime x ?w path
         (time_Now ?w
           + (sint (CheckTime u) + int (rand_source ?w mod nat (sint (RandomizeTime u) + 1)))
             * 3600000000000) of (ok, w') \<Rightarrow> (Returned ok, w'))"
    using c r fit p by (intro SetUpdateTime_eq) simp_all
  moreover have "nat (sint (RandomizeTime u)) mod nat (sint (RandomizeTime u) + 1) = nat (sint (RandomizeTime u))"
    using r by (intro mod_less) simp
  ultimately show "SetUpdateTime x ?w u =
           (case writeTime x ?w path
                   (time_Now w + (sint (CheckTime u) + sint (RandomizeTime u)) * 3600000000000) of
              (ok, w') \<Rightarrow> (Returned ok, w'))"
    using r by simp
qed

theorem SetUpdateTime_window_witness:
  "fst (SetUpdateTime example_externals (example_world\<lparr>time_Now := 63900000000500000000\<rparr>)
          ((createUpdater empty_manifest_requester)\<lparr>CheckTime := 100, RandomizeTime := 100\<rparr>))
     = Returned True
   \<and> files (snd (SetUpdateTime example_externals (example_world\<lparr>time_Now := 63900000000500000000\<rparr>)
          ((createUpdater empty_manifest_requester)\<lparr>CheckTime := 100, RandomizeTime := 100\<rparr>)))
        ''/opt/app/update/cktime''
     = Inr ''63900385200''
   \<and> NextUpdate example_externals
        (snd (SetUpdateTime example_externals (example_world\<lparr>time_Now := 63900000000500000000\<rparr>)
          ((createUpdater empty_manifest_requester)\<lparr>CheckTime := 100, RandomizeTime := 100\<rparr>)))
        ((createUpdater empty_manifest_requester)\<lparr>CheckTime := 100, RandomizeTime := 100\<rparr>)
     = Returned 63900385200000000000
   \<and> (63900000000500000000 :: int) + 100 * 3600000000000 \<le> 63900385200000000000
   \<and> (63900385200000000000 :: int) \<le> 63900000000500000000 + 200 * 3600000000000"
proof -
  let ?w = "example_world\<lparr>time_Now := 63900000000500000000\<rparr>"
  let ?u = "(createUpdater empty_manifest_requester)\<lparr>CheckTime := 100, RandomizeTime := 100\<rparr>"
  have c: "0 \<le> sint (CheckTime ?u)" by simp
  have r: "0 \<le> sint (RandomizeTime ?u)" by simp
  have fit: "(sint (CheckTime ?u) + sint (RandomizeTime ?u)) * 3600000000000 < 2 ^ 63" by simp
  have p: "getExecRelativeDir example_externals ?w ?u (Dir ?u @ upcktimePath)
      = Returned ''/opt/app/update/cktime''"
    by (simp add: example_cktime_path example_world_def createUpdater_def upcktimePath_def)
  have n: "write_failure ?w ''/opt/app/update/cktime'' = None"
    by (simp add: example_world_def)
  have k: "rand_source ?w mod nat (sint (RandomizeTime ?u) + 1) = 7"
    by (simp add: example_world_def)
  have N: "time_Now ?w = 63900000000500000000" by simp
  have cv: "sint (CheckTime ?u) = 100" by simp
  from SetUpdateTime_window [OF c r fit p, THEN conjunct1]
  obtain T S where T: "T = time_Now ?w + (sint (CheckTime ?u) + int (rand_source ?w mod nat (sint (RandomizeTime ?u) + 1))) * 3600000000000"
    and S: "S = T - T mod 1000000000"
    and wr: "write_failure ?w ''/opt/app/update/cktime'' = None \<longrightarrow>
       fst (SetUpdateTime example_externals ?w ?u) = Returned True
       \<and> files (snd (SetUpdateTime example_externals ?w ?u)) ''/opt/app/update/cktime''
           = Inr (rfc3339_Text example_externals (S div 1000000000))
       \<and> (time_Parse example_externals (rfc3339_Text example_externals (S div 1000000000)) = Inr S \<longrightarrow>
            NextUpdate example_externals (snd (SetUpdateTime example_externals ?w ?u)) ?u = Returned S)"
    by (elim exE conjE) (rule that, simp_all only:)
  have Tv: "T = 63900385200500000000" unfolding T k N cv by simp
  have Sv: "S = 63900385200000000000" unfolding S Tv by simp
  have d: "S div 1000000000 = 63900385200" unfolding Sv by simp
  from wr [unfolded d example_stamp_text] n example_stamp_parse(1) Sv
  show ?thesis by simp
qed

text \<open>
  The claim as it is stated, for all non-negative \<open>c\<close> and \<open>r\<close> and with the closed
  interval from \<open>t + c h\<close>, fails in two ways. Where the duration overflows: for
  \<open>c = 2562048\<close> and \<open>r = 0\<close> the product \<open>c * time.Hour\<close> wraps to a negative duration,
  and the time stamp stored, and read back by \<open>NextUpdate\<close>, lies before the time of the
  call. And where nothing overflows, by the whole seconds of RFC3339: for \<open>c = 1\<close> and
  \<open>r = 0\<close>, called half a second after a whole second, the time stamp stored and read
  back is half a second below \<open>t + c h\<close>.
\<close>

theorem SetUpdateTime_window_counterexample:
  "(0 \<le> sint (CheckTime ((createUpdater empty_manifest_requester)\<lparr>CheckTime := 2562048\<rparr>))
    \<and> 0 \<le> sint (RandomizeTime ((createUpdater empty_manifest_requester)\<lparr>CheckTime := 2562048\<rparr>))
    \<and> fst (SetUpdateTime example_externals example_world
            ((createUpdater empty_manifest_requester)\<lparr>CheckTime := 2562048\<rparr>)) = Returned True
    \<and> files (snd (SetUpdateTime example_externals example_world
            ((createUpdater empty_manifest_requester)\<lparr>CheckTime := 2562048\<rparr>)))
         ''/opt/app/update/cktime''
       = Inr ''54676628726''
    \<and> NextUpdate example_externals
         (snd (SetUpdateTime example_externals example_world
            ((createUpdater empty_manifest_requester)\<lparr>CheckTime := 2562048\<rparr>)))
         ((createUpdater empty_manifest_requester)\<lparr>CheckTime := 2562048\<rparr>)
       = Returned 54676628726000000000
    \<and> time_Now example_world = 63900000000000000000
    \<and> \<not> (time_Now example_world + 2562048 * 3600000000000 - 1000000000
            < (54676628726000000000 :: int)))
   \<and> (0 \<le> sint (CheckTime ((createUpdater empty_manifest_requester)\<lparr>CheckTime := 1\<rparr>))
    \<and> 0 \<le> sint (RandomizeTime ((createUpdater empty_manifest_requester)\<lparr>CheckTime := 1\<rparr>))
    \<and> (sint (CheckTime ((createUpdater empty_manifest_requester)\<lparr>CheckTime := 1\<rparr>))
        + sint (RandomizeTime ((createUpdater empty_manifest_requester)\<lparr>CheckTime := 1\<rparr>)))
         * 3600000000000 < (2 :: int) ^ 63
    \<and> fst (SetUpdateTime example_externals (example_world\<lparr>time_Now := 63900000000500000000\<rparr>)
            ((createUpdater empty_manifest_requester)\<lparr>CheckTime := 1\<rparr>)) = Returned True
    \<and> files (snd (SetUpdateTime example_externals (example_world\<lparr>time_Now := 63900000000500000000\<rparr>)
            ((createUpdater empty_manifest_requester)\<lparr>CheckTime := 1\<rparr>)))
         ''/opt/app/update/cktime''
       = Inr ''63900003600''
    \<and> NextUpdate example_externals
         (snd (SetUpdateTime example_externals (example_world\<lparr>time_Now := 63900000000500000000\<rparr>)
            ((createUpdater empty_manifest_requester)\<lparr>CheckTime := 1\<rparr>)))
         ((createUpdater empty_manifest_requester)\<lparr>CheckTime := 1\<rparr>)
       = Returned 63900003600000000000
    \<and> \<not> (time_Now (example_world\<lparr>time_Now := 63900000000500000000\<rparr>) + 1 * 3600000000000
            \<le> (63900003600000000000 :: int)))"
proof (rule conjI)
  let ?u = "(createUpdater empty_manifest_requester)\<lparr>CheckTime := 2562048\<rparr>"
  have i: "rand_Intn example_world (RandomizeTime ?u + 1) = Returned 0"
    by (simp add: rand_Intn_def createUpdater_def example_world_def)
  have ex: "osext_Executable example_world = Inr ''/opt/app/myapp''"
    by (simp add: example_world_def)
  have c: "CheckTime ?u = 2562048" by simp
  have wf: "write_failure example_world ''/opt/app/update/cktime'' = None"
    by (simp add: example_world_def)
  have f: "time_Format example_externals (time_Now example_world - 9223371273709551616)
      = ''54676628726''"
    by (simp add: time_Format_def time_Second_def example_world_def example_stamp_text)
  have s: "SetUpdateTime example_externals example_world ?u
      = (Returned True,
         example_world\<lparr>files := (files example_world)
           (''/opt/app/update/cktime'' := Inr ''54676628726'')\<rparr>)"
    unfolding SetUpdateTime_def i c
    by (simp add: example_cktime_path ex createUpdater_def upcktimePath_def time_Add_def
        overflown_wait writeTime_def wf f)
  have n: "NextUpdate example_externals (snd (SetUpdateTime example_externals example_world ?u)) ?u
      = Returned 54676628726000000000"
    unfolding s NextUpdate_def
    by (simp add: example_cktime_path ex createUpdater_def upcktimePath_def readTime_def
        example_stamp_parse)
  have t: "time_Now example_world = 63900000000000000000"
    by (simp add: example_world_def)
  have r: "RandomizeTime ?u = 0" by (simp add: createUpdater_def)
  show "0 \<le> sint (CheckTime ?u)
    \<and> 0 \<le> sint (RandomizeTime ?u)
    \<and> fst (SetUpdateTime example_externals example_world ?u) = Returned True
    \<and> files (snd (SetUpdateTime example_externals example_world ?u)) ''/opt/app/update/cktime''
       = Inr ''54676628726''
    \<and> NextUpdate example_externals (snd (SetUpdateTime example_externals example_world ?u)) ?u
       = Returned 54676628726000000000
    \<and> time_Now example_world = 63900000000000000000
    \<and> \<not> (time_Now example_world + 2562048 * 3600000000000 - 1000000000
            < (54676628726000000000 :: int))"
  proof (intro conjI)
    show "0 \<le> sint (CheckTime ?u)" by simp
    show "0 \<le> sint (RandomizeTime ?u)" by (simp add: r)
    show "fst (SetUpdateTime example_externals example_world ?u) = Returned True"
      unfolding s by simp
    show "files (snd (SetUpdateTime example_externals example_world ?u)) ''/opt/app/update/cktime''
       = Inr ''54676628726''"
      unfolding s by simp
    show "NextUpdate example_externals (snd (SetUpdateTime example_externals example_world ?u)) ?u
       = Returned 54676628726000000000"
      by (rule n)
    show "time_Now example_world = 63900000000000000000" by (rule t)
    show "\<not> (time_Now example_world + 2562048 * 3600000000000 - 1000000000
            < (54676628726000000000 :: int))"
      unfolding t by simp
  qed
next
  let ?w = "example_world\<lparr>time_Now := 63900000000500000000\<rparr>"
  let ?u = "(createUpdater empty_manifest_requester)\<lparr>CheckTime := 1\<rparr>"
  have c: "0 \<le> sint (CheckTime ?u)" by simp
  have r: "0 \<le> sint (RandomizeTime ?u)" by (simp add: createUpdater_def)
  have fit: "(sint (CheckTime ?u) + sint (RandomizeTime ?u)) * 3600000000000 < 2 ^ 63"
    by (simp add: createUpdater_def)
  have ex: "osext_Executable ?w = Inr ''/opt/app/myapp''"
    by (simp add: example_world_def)
  have p: "getExecRelativeDir example_externals ?w ?u (Dir ?u @ upcktimePath)
      = Returned ''/opt/app/update/cktime''"
    by (simp add: example_cktime_path example_world_def createUpdater_def upcktimePath_def)
  have wf: "write_failure example_world ''/opt/app/update/cktime'' = None"
    by (simp add: example_world_def)
  have T: "time_Now ?w + (sint (CheckTime ?u) + int (rand_source ?w mod nat (sint (RandomizeTime ?u) + 1)))
      * 3600000000000 = 63900003600500000000"
    by (simp add: createUpdater_def)
  have f: "time_Format example_externals 63900003600500000000 = ''63900003600''"
    by (simp add: time_Format_def time_Second_def example_stamp_text)
  have s: "SetUpdateTime example_externals ?w ?u
      = (Returned True, ?w\<lparr>files := (files ?w)(''/opt/app/update/cktime'' := Inr ''63900003600'')\<rparr>)"
    unfolding SetUpdateTime_eq [OF c r fit p] T by (simp add: writeTime_def wf f)
  have n: "NextUpdate example_externals (snd (SetUpdateTime example_externals ?w ?u)) ?u
      = Returned 63900003600000000000"
    unfolding s NextUpdate_def
    by (simp add: example_cktime_path example_world_def createUpdater_def upcktimePath_def
        readTime_def example_stamp_parse)
  show "0 \<le> sint (CheckTime ?u)
    \<and> 0 \<le> sint (RandomizeTime ?u)
    \<and> (sint (CheckTime ?u) + sint (RandomizeTime ?u)) * 3600000000000 < (2 :: int) ^ 63
    \<and> fst (SetUpdateTime example_externals ?w ?u) = Returned True
    \<and> files (snd (SetUpdateTime example_externals ?w ?u)) ''/opt/app/update/cktime''
       = Inr ''63900003600''
    \<and> NextUpdate example_externals (snd (SetUpdateTime example_externals ?w ?u)) ?u
       = Returned 63900003600000000000
    \<and> \<not> (time_Now ?w + 1 * 3600000000000 \<le> (63900003600000000000 :: int))"
  proof (intro conjI)
    show "0 \<le> sint (CheckTime ?u)" by (rule c)
    show "0 \<le> sint (RandomizeTime ?u)" by (rule r)
    show "(sint (CheckTime ?u) + sint (RandomizeTime ?u)) * 3600000000000 < (2 :: int) ^ 63"
      by (rule fit)
    show "fst (SetUpdateTime example_externals ?w ?u) = Returned True"
      unfolding s by simp
    show "files (snd (SetUpdateTime example_externals ?w ?u)) ''/opt/app/update/cktime''
       = Inr ''63900003600''"
      unfolding s by simp
    show "NextUpdate example_externals (snd (SetUpdateTime example_externals ?w ?u)) ?u
       = Returned 63900003600000000000"
      by (rule n)
    show "\<not> (time_Now ?w + 1 * 3600000000000 \<le> (63900003600000000000 :: int))"
      by simp
  qed
qed

section \<open>Properties of the manifest fetch\<close>

lemma fetch_cases:
  "\<exists>r. fetch w u url = (r, w\<lparr>fetched := fetched w @ [url]\<rparr>)"
  by (simp add: fetch_def Let_def split: option.splits prod.splits)

lemma fetched_fetch: "fetched (snd (fetch w u url)) = fetched w @ [url]"
  using fetch_cases [of w u url] by auto

lemma snd_fetchInfo: "snd (fetchInfo x w u) = w\<lparr>fetched := fetched w @ [manifestURL x u]\<rparr>"
proof -
  obtain r where "fetch w u (manifestURL x u) = (r, w\<lparr>fetched := fetched w @ [manifestURL x u]\<rparr>)"
    using fetch_cases by blast
  then show ?thesis
    by (simp add: fetchInfo_def split: sum.splits)
qed

lemma QueryEscape_append: "QueryEscape (s @ t) = QueryEscape s @ QueryEscape t"
  by (induction s) simp_all

lemma QueryEscape_plus: "QueryEscape ''+'' = ''%2B''"
  by (simp add: shouldEscape_def upperhex_def)

text \<open>
  Claim C5. The manifest URL requested is \<open>ApiURL\<close>, the query-escaped \<open>CmdName\<close>, a slash,
  the query-escaped platform and \<open>.json\<close>, concatenated; query escaping turns every \<open>+\<close>
  into \<open>%2B\<close>; and for \<open>CmdName = "myapp+foo"\<close> on \<open>linux-amd64\<close> with the \<open>ApiURL\<close> of the
  tests the URL is \<open>http://api.updates.yourdomain.com/myapp%2Bfoo/linux-amd64.json\<close>.
\<close>

theorem fetchInfo_manifest_url:
  "fetched (snd (fetchInfo x w u))
     = fetched w @ [ApiURL u @ QueryEscape (CmdName u) @ ''/'' @ QueryEscape (plat x) @ ''.json'']
   \<and> QueryEscape ''+'' = ''%2B''
   \<and> QueryEscape (s @ ''+'' @ t) = QueryEscape s @ ''%2B'' @ QueryEscape t
   \<and> fetched (snd (fetchInfo example_externals example_world (createUpdaterWithEscapedCharacters mr)))
     = [''http://api.updates.yourdomain.com/myapp%2Bfoo/linux-amd64.json'']"
proof (intro conjI)
  show a: "fetched (snd (fetchInfo x w u))
     = fetched w @ [ApiURL u @ QueryEscape (CmdName u) @ ''/'' @ QueryEscape (plat x) @ ''.json'']" for x w u
    by (simp add: snd_fetchInfo manifestURL_def)
  show "QueryEscape ''+'' = ''%2B''" by (rule QueryEscape_plus)
  show "QueryEscape (s @ ''+'' @ t) = QueryEscape s @ ''%2B'' @ QueryEscape t"
    by (simp only: QueryEscape_append QueryEscape_plus)
  show "fetched (snd (fetchInfo example_externals example_world (createUpdaterWithEscapedCharacters mr)))
     = [''http://api.updates.yourdomain.com/myapp%2Bfoo/linux-amd64.json'']"
    by (simp add: a example_externals_def example_world_def createUpdaterWithEscapedCharacters_def
        createUpdater_def shouldEscape_def upperhex_def)
qed

text \<open>
  Claim C7. Once the manifest was fetched and decoded, \<open>fetchInfo\<close> fails exactly when the
  decoded \<open>Version\<close> is not empty and the decoded \<open>Sha256\<close> is not 32 bytes long; a manifest
  with an empty \<open>Version\<close> is returned whatever the length of its \<open>Sha256\<close>.
\<close>

theorem fetchInfo_rejects_iff:
  assumes f: "fetch w u (manifestURL x u) = (Inr r, w')" and d: "json_Decode x r = Inr info"
  shows "((\<exists>e. fst (fetchInfo x w u) = Inl e) \<longleftrightarrow> (Version info \<noteq> [] \<and> length (Sha256 info) \<noteq> 32))
    \<and> (Version info = [] \<longrightarrow> fetchInfo x w u = (Inr info, w'))
    \<and> (length (Sha256 info) = 32 \<longrightarrow> fetchInfo x w u = (Inr info, w'))
    \<and> (Version info \<noteq> [] \<and> length (Sha256 info) \<noteq> 32 \<longrightarrow>
         fetchInfo x w u = (Inl (ErrBadCmdHash 32 (length (Sha256 info))), w'))"
  by (simp add: fetchInfo_def f d sha256_Size_def)

theorem fetchInfo_rejects_iff_witness:
  "fetchInfo example_externals example_world
       (createUpdater (short_hash_requester ''manifest no version short hash''))
     = (Inr \<lparr>Version = [], Sha256 = ''abc'', Signature = None\<rparr>,
        example_world\<lparr>fetched := [''http://api.updates.yourdomain.com/myapp/linux-amd64.json'']\<rparr>)
   \<and> fetchInfo example_externals example_world
       (createUpdater (short_hash_requester ''manifest 1.3 short hash''))
     = (Inl (ErrBadCmdHash 32 3),
        example_world\<lparr>fetched := [''http://api.updates.yourdomain.com/myapp/linux-amd64.json'']\<rparr>)"
proof -
  let ?x = example_externals and ?w = example_world
  let ?w' = "example_world\<lparr>fetched := [''http://api.updates.yourdomain.com/myapp/linux-amd64.json'']\<rparr>"
  let ?u1 = "createUpdater (short_hash_requester ''manifest no version short hash'')"
  let ?u2 = "createUpdater (short_hash_requester ''manifest 1.3 short hash'')"
  let ?i1 = "\<lparr>Version = [], Sha256 = ''abc'', Signature = None\<rparr>"
  let ?i2 = "\<lparr>Version = ''1.3'', Sha256 = ''abc'', Signature = None\<rparr>"
  have url: "manifestURL ?x (createUpdater mr) = ''http://api.updates.yourdomain.com/myapp/linux-amd64.json''" for mr
    by (simp add: manifestURL_def example_externals_def createUpdater_def shouldEscape_def)
  have f1: "fetch ?w ?u1 (manifestURL ?x ?u1) = (Inr ''manifest no version short hash'', ?w')"
    unfolding url by (simp add: fetch_def createUpdater_def short_hash_requester_def example_world_def)
  have f2: "fetch ?w ?u2 (manifestURL ?x ?u2) = (Inr ''manifest 1.3 short hash'', ?w')"
    unfolding url by (simp add: fetch_def createUpdater_def short_hash_requester_def example_world_def)
  have d1: "json_Decode ?x ''manifest no version short hash'' = Inr ?i1"
    by (simp add: example_externals_def example_manifests_def)
  have d2: "json_Decode ?x ''manifest 1.3 short hash'' = Inr ?i2"
    by (simp add: example_externals_def example_manifests_def)
  from fetchInfo_rejects_iff [OF f1 d1] have 1: "fetchInfo ?x ?w ?u1 = (Inr ?i1, ?w')" by simp
  from fetchInfo_rejects_iff [OF f2 d2] have 2: "fetchInfo ?x ?w ?u2 = (Inl (ErrBadCmdHash 32 3), ?w')" by simp
  from 1 2 show ?thesis by simp
qed

section \<open>Properties of Update and BackgroundRun\<close>

subsection \<open>What each stage does to the world\<close>

lemma fetch_logPrintln:
  "fetch (logPrintln w l) u url = (fst (fetch w u url), logPrintln (snd (fetch w u url)) l)"
  by (simp add: fetch_def logPrintln_def Let_def split: option.splits prod.splits)

lemma fetch_snd: "snd (fetch w u url) = w\<lparr>fetched := fetched w @ [url]\<rparr>"
  using fetch_cases [of w u url] by auto

lemma fetchAndVerifyPatch_snd:
  "snd (fetchAndVerifyPatch x w u info old) = w\<lparr>fetched := fetched w @ [patchURL x u info]\<rparr>"
proof -
  obtain r where f: "fetch w u (patchURL x u info) = (r, w\<lparr>fetched := fetched w @ [patchURL x u info]\<rparr>)"
    using fetch_cases by blast
  show ?thesis
    by (simp add: fetchAndVerifyPatch_def fetchAndApplyPatch_def f split: sum.splits prod.splits option.splits)
qed

lemma fetchBin_snd:
  "snd (fetchBin x w u info) = w\<lparr>fetched := fetched w @ [binURL x u info]\<rparr>"
proof -
  obtain r where f: "fetch w u (binURL x u info) = (r, w\<lparr>fetched := fetched w @ [binURL x u info]\<rparr>)"
    using fetch_cases by blast
  show ?thesis
    by (simp add: fetchBin_def f split: sum.splits)
qed

lemma fetchBin_logPrintln:
  "fst (fetchBin x (logPrintln w l) u info) = fst (fetchBin x w u info)"
  by (cases "fetch w u (binURL x u info)")
     (simp add: fetchBin_def fetch_logPrintln split: sum.splits)

lemma fetchAndVerifyFullBin_snd:
  "snd (fetchAndVerifyFullBin x w u info) = w\<lparr>fetched := fetched w @ [binURL x u info]\<rparr>"
proof -
  obtain r where f: "fetchBin x w u info = (r, w\<lparr>fetched := fetched w @ [binURL x u info]\<rparr>)"
    using fetchBin_snd [of x w u info] by (cases "fetchBin x w u info") simp
  show ?thesis
    by (simp add: fetchAndVerifyFullBin_def f split: sum.splits)
qed

lemma fetchAndVerifyFullBin_logPrintln:
  "fst (fetchAndVerifyFullBin x (logPrintln w l) u info) = fst (fetchAndVerifyFullBin x w u info)"
proof -
  obtain r w' where a: "fetchBin x w u info = (r, w')" by (cases "fetchBin x w u info")
  obtain r' w'' where b: "fetchBin x (logPrintln w l) u info = (r', w'')"
    by (cases "fetchBin x (logPrintln w l) u info")
  have "r' = r" using fetchBin_logPrintln [of x w l u info] a b by simp
  then show ?thesis
    by (simp add: fetchAndVerifyFullBin_def a b split: sum.splits)
qed

lemma fallbackFullBin_fst:
  "fst (fallbackFullBin x w u info err) = fst (fetchAndVerifyFullBin x w u info)"
proof -
  let ?w1 = "if err = ErrHashMismatch then logPrintln w LogHashMismatchPatched
             else if DiffURL u \<noteq> [] then logPrintln w (LogErrorPatching err) else w"
  have e: "fst (fetchAndVerifyFullBin x ?w1 u info) = fst (fetchAndVerifyFullBin x w u info)"
    by (simp add: fetchAndVerifyFullBin_logPrintln)
  obtain r w2 where f: "fetchAndVerifyFullBin x ?w1 u info = (r, w2)"
    by (cases "fetchAndVerifyFullBin x ?w1 u info")
  have "fst (fallbackFullBin x w u info err) = r"
    unfolding fallbackFullBin_def Let_def f by (simp split: sum.splits)
  then show ?thesis using e f by simp
qed

lemma fallbackFullBin_snd:
  "\<exists>ls. snd (fallbackFullBin x w u info err)
     = w\<lparr>fetched := fetched w @ [binURL x u info],
          logged := logged w
            @ (if err = ErrHashMismatch then [LogHashMismatchPatched]
               else if DiffURL u \<noteq> [] then [LogErrorPatching err] else [])
            @ ls\<rparr>
     \<and> (\<forall>e. LogErrorPatching e \<notin> set ls)"
proof -
  let ?w1 = "if err = ErrHashMismatch then logPrintln w LogHashMismatchPatched
             else if DiffURL u \<noteq> [] then logPrintln w (LogErrorPatching err) else w"
  obtain r where f: "fetchAndVerifyFullBin x ?w1 u info
      = (r, ?w1\<lparr>fetched := fetched ?w1 @ [binURL x u info]\<rparr>)"
    using fetchAndVerifyFullBin_snd [of x ?w1 u info]
    by (cases "fetchAndVerifyFullBin x ?w1 u info") simp
  show ?thesis
  proof (cases r)
    case (Inl e')
    show ?thesis
      apply (rule exI [of _ "[if e' = ErrHashMismatch then LogHashMismatchFull else LogErrorFetchingFull e']"])
      unfolding fallbackFullBin_def Let_def f Inl
      by (simp add: logPrintln_def)
  next
    case (Inr bin)
    show ?thesis
      apply (rule exI [of _ "[]"])
      unfolding fallbackFullBin_def Let_def f Inr
      by (simp add: logPrintln_def)
  qed
qed

lemma applyBinary_snd: "snd (applyBinary w info bin) = w\<lparr>installed := installed w @ [bin]\<rparr>"
  by (simp add: applyBinary_def Let_def split: prod.splits option.splits)

lemma applyBinary_fst:
  "up_FromStream w' = up_FromStream w \<Longrightarrow> fst (applyBinary w' info bin) = fst (applyBinary w info bin)"
  by (simp add: applyBinary_def Let_def split: prod.splits option.splits)

lemma Update_after_manifest:
  assumes "getTargetAbsoluteDir w u = Returned path" "files w path = Inr old"
    "fetchInfo x w u = (Inr info, w1)" "Version info \<noteq> []" "Version info \<noteq> CurrentVersion u"
    "PublicKey u = None \<or> Signature info \<noteq> None"
  shows "Update x w u =
    (case (case fetchAndVerifyPatch x w1 u info old of
             (Inl err, w2) \<Rightarrow> fallbackFullBin x w2 u info err
           | (Inr bin, w2) \<Rightarrow> (Inr bin, w2)) of
       (Inl err, w3) \<Rightarrow> (Returned (Inl err), w3)
     | (Inr bin, w3) \<Rightarrow> (case applyBinary w3 info bin of (r, w4) \<Rightarrow> (Returned r, w4)))"
  using assms by (auto simp add: Update_def)

subsection \<open>The example scenarios, evaluated\<close>

lemmas example_defs =
  example_externals_def example_world_def createUpdater_def example_manifests_def
  example_digest_def example_key_def emptyInfo_def

lemmas url_defs = manifestURL_def patchURL_def binURL_def shouldEscape_def upperhex_def

lemma example_manifest_fetch:
  "fetchInfo example_externals example_world
       ((createUpdater patch_only_requester)\<lparr>PublicKey := Some example_key\<rparr>)
     = (Inr \<lparr>Version = ''1.3'', Sha256 = example_digest ''NEW'', Signature = Some ''forged''\<rparr>,
        example_world\<lparr>fetched := [''http://api.updates.yourdomain.com/myapp/linux-amd64.json'']\<rparr>)"
  by (simp add: fetchInfo_def fetch_def patch_only_requester_def sha256_Size_def example_defs url_defs)

lemma example_patch_signature_mismatch:
  "fetchAndVerifyPatch example_externals
       (example_world\<lparr>fetched := [''http://api.updates.yourdomain.com/myapp/linux-amd64.json'']\<rparr>)
       ((createUpdater patch_only_requester)\<lparr>PublicKey := Some example_key\<rparr>)
       \<lparr>Version = ''1.3'', Sha256 = example_digest ''NEW'', Signature = Some ''forged''\<rparr> ''OLD''
     = (Inl ErrSignatureMismatch,
        example_world\<lparr>fetched := [''http://api.updates.yourdomain.com/myapp/linux-amd64.json'',
           ''http://diff.updates.yourdomain.com/myapp/1.2/1.3/linux-amd64'']\<rparr>)"
  by (simp add: fetchAndVerifyPatch_def fetchAndApplyPatch_def fetch_def patch_only_requester_def
      verifySha_def verifySignature_def example_defs url_defs)

lemma example_full_missing:
  "fst (fetchAndVerifyFullBin example_externals
       (example_world\<lparr>fetched := [''http://api.updates.yourdomain.com/myapp/linux-amd64.json'',
           ''http://diff.updates.yourdomain.com/myapp/1.2/1.3/linux-amd64'']\<rparr>)
       ((createUpdater patch_only_requester)\<lparr>PublicKey := Some example_key\<rparr>)
       \<lparr>Version = ''1.3'', Sha256 = example_digest ''NEW'', Signature = Some ''forged''\<rparr>)
     = Inl (ErrOther ''Bad status code on binary: 404'')"
  by (simp add: fetchAndVerifyFullBin_def fetchBin_def fetch_def patch_only_requester_def
      example_defs url_defs)

lemma example_relative_manifest_fetch:
  "fetchInfo example_externals example_world
       ((createUpdater relative_patch_requester)\<lparr>DiffURL := []\<rparr>)
     = (Inr \<lparr>Version = ''1.3'', Sha256 = example_digest ''NEW'', Signature = Some ''forged''\<rparr>,
        example_world\<lparr>fetched := [''http://api.updates.yourdomain.com/myapp/linux-amd64.json'']\<rparr>)"
  by (simp add: fetchInfo_def fetch_def relative_patch_requester_def sha256_Size_def example_defs url_defs)

lemma example_relative_patch:
  "fetchAndVerifyPatch example_externals
       (example_world\<lparr>fetched := [''http://api.updates.yourdomain.com/myapp/linux-amd64.json'']\<rparr>)
       ((createUpdater relative_patch_requester)\<lparr>DiffURL := []\<rparr>)
       \<lparr>Version = ''1.3'', Sha256 = example_digest ''NEW'', Signature = Some ''forged''\<rparr> ''OLD''
     = (Inr ''NEW'',
        example_world\<lparr>fetched := [''http://api.updates.yourdomain.com/myapp/linux-amd64.json'',
           ''myapp/1.2/1.3/linux-amd64'']\<rparr>)"
  by (simp add: fetchAndVerifyPatch_def fetchAndApplyPatch_def fetch_def relative_patch_requester_def
      verifySha_def verifySignature_def example_defs url_defs)

lemma example_unsigned_manifest_fetch:
  "fetchInfo example_externals example_world
       ((createUpdater unsigned_manifest_requester)\<lparr>DiffURL := [], PublicKey := Some example_key\<rparr>)
     = (Inr \<lparr>Version = ''1.3'', Sha256 = example_digest ''NEW'', Signature = None\<rparr>,
        example_world\<lparr>fetched := [''http://api.updates.yourdomain.com/myapp/linux-amd64.json'']\<rparr>)"
  by (simp add: fetchInfo_def fetch_def unsigned_manifest_requester_def sha256_Size_def example_defs url_defs)

lemma example_missing_patch_manifest_fetch:
  "fetchInfo example_externals example_world
       ((createUpdater patch_only_requester)\<lparr>DiffURL := []\<rparr>)
     = (Inr \<lparr>Version = ''1.3'', Sha256 = example_digest ''NEW'', Signature = Some ''forged''\<rparr>,
        example_world\<lparr>fetched := [''http://api.updates.yourdomain.com/myapp/linux-amd64.json'']\<rparr>)"
  by (simp add: fetchInfo_def fetch_def patch_only_requester_def sha256_Size_def example_defs url_defs)

lemma example_missing_patch:
  "fetchAndVerifyPatch example_externals
       (example_world\<lparr>fetched := [''http://api.updates.yourdomain.com/myapp/linux-amd64.json'']\<rparr>)
       ((createUpdater patch_only_requester)\<lparr>DiffURL := []\<rparr>)
       \<lparr>Version = ''1.3'', Sha256 = example_digest ''NEW'', Signature = Some ''forged''\<rparr> ''OLD''
     = (Inl (ErrOther ''Bad status code on binary: 404''),
        example_world\<lparr>fetched := [''http://api.updates.yourdomain.com/myapp/linux-amd64.json'',
           ''myapp/1.2/1.3/linux-amd64'']\<rparr>)"
  by (simp add: fetchAndVerifyPatch_def fetchAndApplyPatch_def fetch_def patch_only_requester_def
      verifySha_def verifySignature_def example_defs url_defs)

subsection \<open>The patch stage and the fallback\<close>

text \<open>
  Claim C1, as amended. When the patched candidate fails signature verification, \<open>Update\<close>
  does not return at that point. As for a hash mismatch, and for every other error of the
  patch stage, it falls back to the full download: the URLs requested are the manifest,
  the patch and the full binary, in this order, and the result is the one of the full
  stage (its error, or what installing the full binary returns). \<open>ErrSignatureMismatch\<close>
  is therefore the result only when the full stage itself ends with it.
\<close>

theorem Update_falls_back_on_patch_error:
  assumes t: "getTargetAbsoluteDir w u = Returned path" and o: "files w path = Inr old"
    and m: "fetchInfo x w u = (Inr info, w1)"
    and v: "Version info \<noteq> []" and c: "Version info \<noteq> CurrentVersion u"
    and k: "PublicKey u = None \<or> Signature info \<noteq> None"
    and pv: "fetchAndVerifyPatch x w1 u info old = (Inl err, w2)"
  shows "fetched (snd (Update x w u))
           = fetched w @ [manifestURL x u, patchURL x u info, binURL x u info]
       \<and> fst (Update x w u)
           = (case fst (fetchAndVerifyFullBin x w2 u info) of
                Inl e \<Rightarrow> Returned (Inl e)
              | Inr bin \<Rightarrow> Returned (fst (applyBinary w2 info bin)))"
proof -
  have w1: "w1 = w\<lparr>fetched := fetched w @ [manifestURL x u]\<rparr>"
    using snd_fetchInfo [of x w u] m by simp
  have w2: "w2 = w1\<lparr>fetched := fetched w1 @ [patchURL x u info]\<rparr>"
    using fetchAndVerifyPatch_snd [of x w1 u info old] pv by simp
  obtain ls where w3: "snd (fallbackFullBin x w2 u info err)
     = w2\<lparr>fetched := fetched w2 @ [binURL x u info],
           logged := logged w2
             @ (if err = ErrHashMismatch then [LogHashMismatchPatched]
                else if DiffURL u \<noteq> [] then [LogErrorPatching err] else [])
             @ ls\<rparr>"
    using fallbackFullBin_snd [of x w2 u info err] by blast
  obtain r w3 where fb: "fallbackFullBin x w2 u info err = (r, w3)"
    by (cases "fallbackFullBin x w2 u info err")
  have r: "r = fst (fetchAndVerifyFullBin x w2 u info)"
    using fallbackFullBin_fst [of x w2 u info err] fb by simp
  have f3: "fetched w3 = fetched w @ [manifestURL x u, patchURL x u info, binURL x u info]"
    using w3 fb by (simp add: w2 w1)
  have u3: "up_FromStream w3 = up_FromStream w2"
    using w3 fb by simp
  have U: "Update x w u =
      (case r of
         Inl e \<Rightarrow> (Returned (Inl e), w3)
       | Inr bin \<Rightarrow> (case applyBinary w3 info bin of (r, w4) \<Rightarrow> (Returned r, w4)))"
    unfolding Update_after_manifest [OF t o m v c k] pv by (simp add: fb)
  show ?thesis
  proof (cases r)
    case (Inl e)
    then show ?thesis using U f3 r by simp
  next
    case (Inr bin)
    have s: "snd (applyBinary w3 info bin) = w3\<lparr>installed := installed w3 @ [bin]\<rparr>"
      by (rule applyBinary_snd)
    have a: "fst (applyBinary w3 info bin) = fst (applyBinary w2 info bin)"
      using u3 by (rule applyBinary_fst)
    obtain r4 w4 where ab: "applyBinary w3 info bin = (r4, w4)"
      by (cases "applyBinary w3 info bin")
    have "Update x w u = (Returned r4, w4)" using U Inr ab by simp
    moreover have "fetched w4 = fetched w3" using s ab by simp
    moreover have "r4 = fst (applyBinary w2 info bin)" using a ab by simp
    ultimately show ?thesis using f3 r [symmetric] Inr by simp
  qed
qed

theorem Update_falls_back_on_patch_error_witness:
  "fetched (snd (Update example_externals example_world
            ((createUpdater patch_only_requester)\<lparr>PublicKey := Some example_key\<rparr>)))
     = [''http://api.updates.yourdomain.com/myapp/linux-amd64.json'',
        ''http://diff.updates.yourdomain.com/myapp/1.2/1.3/linux-amd64'',
        ''http://bin.updates.yourdownmain.com/myapp/1.3/linux-amd64.gz'']
   \<and> fst (Update example_externals example_world
            ((createUpdater patch_only_requester)\<lparr>PublicKey := Some example_key\<rparr>))
     = Returned (Inl (ErrOther ''Bad status code on binary: 404''))"
proof -
  let ?u = "(createUpdater patch_only_requester)\<lparr>PublicKey := Some example_key\<rparr>"
  let ?i = "\<lparr>Version = ''1.3'', Sha256 = example_digest ''NEW'', Signature = Some ''forged''\<rparr>"
  have t: "getTargetAbsoluteDir example_world ?u = Returned ''/opt/app/myapp''"
    by (simp add: getTargetAbsoluteDir_def example_defs)
  have o: "files example_world ''/opt/app/myapp'' = Inr ''OLD''"
    by (simp add: example_defs)
  have v: "Version ?i \<noteq> []" by simp
  have c: "Version ?i \<noteq> CurrentVersion ?u" by (simp add: createUpdater_def)
  have k: "PublicKey ?u = None \<or> Signature ?i \<noteq> None" by simp
  have urls: "manifestURL example_externals ?u = ''http://api.updates.yourdomain.com/myapp/linux-amd64.json''"
    "patchURL example_externals ?u ?i = ''http://diff.updates.yourdomain.com/myapp/1.2/1.3/linux-amd64''"
    "binURL example_externals ?u ?i = ''http://bin.updates.yourdownmain.com/myapp/1.3/linux-amd64.gz''"
    by (simp_all add: example_defs url_defs)
  have e: "fetched example_world = []" by (simp add: example_defs)
  from Update_falls_back_on_patch_error
    [OF t o example_manifest_fetch v c k example_patch_signature_mismatch]
  show ?thesis
    unfolding urls example_full_missing e by simp
qed

text \<open>
  The claim as it is stated fails: with a signed manifest whose signature does not verify,
  a patch that yields the right hash and no full binary on the server, the patch stage
  ends with \<open>ErrSignatureMismatch\<close>, and \<open>Update\<close> goes on to request the full binary and
  returns the error of that request.
\<close>

theorem Update_signature_mismatch_counterexample:
  "fst (fetchInfo example_externals example_world
          ((createUpdater patch_only_requester)\<lparr>PublicKey := Some example_key\<rparr>))
     = Inr \<lparr>Version = ''1.3'', Sha256 = example_digest ''NEW'', Signature = Some ''forged''\<rparr>
   \<and> fst (fetchAndVerifyPatch example_externals
          (snd (fetchInfo example_externals example_world
             ((createUpdater patch_only_requester)\<lparr>PublicKey := Some example_key\<rparr>)))
          ((createUpdater patch_only_requester)\<lparr>PublicKey := Some example_key\<rparr>)
          \<lparr>Version = ''1.3'', Sha256 = example_digest ''NEW'', Signature = Some ''forged''\<rparr> ''OLD'')
     = Inl ErrSignatureMismatch
   \<and> fst (Update example_externals example_world
          ((createUpdater patch_only_requester)\<lparr>PublicKey := Some example_key\<rparr>))
     = Returned (Inl (ErrOther ''Bad status code on binary: 404''))
   \<and> fetched (snd (Update example_externals example_world
          ((createUpdater patch_only_requester)\<lparr>PublicKey := Some example_key\<rparr>)))
     = [''http://api.updates.yourdomain.com/myapp/linux-amd64.json'',
        ''http://diff.updates.yourdomain.com/myapp/1.2/1.3/linux-amd64'',
        ''http://bin.updates.yourdownmain.com/myapp/1.3/linux-amd64.gz'']
   \<and> logged (snd (Update example_externals example_world
          ((createUpdater patch_only_requester)\<lparr>PublicKey := Some example_key\<rparr>)))
     = [LogErrorPatching ErrSignatureMismatch,
        LogErrorFetchingFull (ErrOther ''Bad status code on binary: 404'')]"
proof -
  let ?u = "(createUpdater patch_only_requester)\<lparr>PublicKey := Some example_key\<rparr>"
  let ?i = "\<lparr>Version = ''1.3'', Sha256 = example_digest ''NEW'', Signature = Some ''forged''\<rparr>"
  let ?w2 = "example_world\<lparr>fetched := [''http://api.updates.yourdomain.com/myapp/linux-amd64.json'',
           ''http://diff.updates.yourdomain.com/myapp/1.2/1.3/linux-amd64'']\<rparr>"
  have t: "getTargetAbsoluteDir example_world ?u = Returned ''/opt/app/myapp''"
    by (simp add: getTargetAbsoluteDir_def example_defs)
  have o: "files example_world ''/opt/app/myapp'' = Inr ''OLD''"
    by (simp add: example_defs)
  have v: "Version ?i \<noteq> []" by simp
  have c: "Version ?i \<noteq> CurrentVersion ?u" by (simp add: createUpdater_def)
  have k: "PublicKey ?u = None \<or> Signature ?i \<noteq> None" by simp
  have fb: "fallbackFullBin example_externals ?w2 ?u ?i ErrSignatureMismatch
     = (Inl (ErrOther ''Bad status code on binary: 404''),
        example_world\<lparr>fetched := [''http://api.updates.yourdomain.com/myapp/linux-amd64.json'',
            ''http://diff.updates.yourdomain.com/myapp/1.2/1.3/linux-amd64'',
            ''http://bin.updates.yourdownmain.com/myapp/1.3/linux-amd64.gz''],
          logged := [LogErrorPatching ErrSignatureMismatch,
            LogErrorFetchingFull (ErrOther ''Bad status code on binary: 404'')]\<rparr>)"
    by (simp add: fallbackFullBin_def logPrintln_def fetchAndVerifyFullBin_def fetchBin_def
        fetch_def patch_only_requester_def example_defs url_defs)
  have U: "Update example_externals example_world ?u
     = (Returned (Inl (ErrOther ''Bad status code on binary: 404'')),
        example_world\<lparr>fetched := [''http://api.updates.yourdomain.com/myapp/linux-amd64.json'',
            ''http://diff.updates.yourdomain.com/myapp/1.2/1.3/linux-amd64'',
            ''http://bin.updates.yourdownmain.com/myapp/1.3/linux-amd64.gz''],
          logged := [LogErrorPatching ErrSignatureMismatch,
            LogErrorFetchingFull (ErrOther ''Bad status code on binary: 404'')]\<rparr>)"
    unfolding Update_after_manifest [OF t o example_manifest_fetch v c k]
      example_patch_signature_mismatch
    by (simp add: fb)
  show ?thesis
    unfolding U by (simp add: example_manifest_fetch example_patch_signature_mismatch)
qed

text \<open>
  Claim C2, as amended. Let \<open>DiffURL\<close> be empty, let the executable open and let the
  manifest be fetched and name a version that is neither empty nor \<open>CurrentVersion\<close>. If
  a public key is configured and the manifest carries no signature, \<open>Update\<close> returns the
  error of the missing signature after the request of the manifest alone, and logs
  nothing. In every other case \<open>Update\<close> still runs the patch stage: after the manifest it
  requests the patch URL built on the empty base (the escaped command name, current
  version, new version and platform, joined by slashes), and it requests the full binary
  exactly when the patch stage fails. What the empty \<open>DiffURL\<close> suppresses is the log line
  "error patching binary": no such line is logged.
\<close>

theorem Update_empty_DiffURL_fetches_patch:
  assumes d: "DiffURL u = []"
    and t: "getTargetAbsoluteDir w u = Returned path" and o: "files w path = Inr old"
    and m: "fetchInfo x w u = (Inr info, w1)"
    and v: "Version info \<noteq> []" and c: "Version info \<noteq> CurrentVersion u"
  shows "(PublicKey u \<noteq> None \<and> Signature info = None \<longrightarrow>
            fst (Update x w u) = Returned (Inl ErrNoSignature)
            \<and> fetched (snd (Update x w u)) = fetched w @ [manifestURL x u]
            \<and> logged (snd (Update x w u)) = logged w)
       \<and> (PublicKey u = None \<or> Signature info \<noteq> None \<longrightarrow>
            fetched (snd (Update x w u))
              = fetched w
                @ [manifestURL x u,
                   QueryEscape (CmdName u) @ ''/'' @ QueryEscape (CurrentVersion u) @ ''/''
                     @ QueryEscape (Version info) @ ''/'' @ QueryEscape (plat x)]
                @ (case fst (fetchAndVerifyPatch x w1 u info old) of
                     Inl e \<Rightarrow> [binURL x u info]
                   | Inr bin \<Rightarrow> [])
            \<and> (\<exists>ls. logged (snd (Update x w u)) = logged w @ ls
                     \<and> (\<forall>e. LogErrorPatching e \<notin> set ls)))"
proof (intro conjI impI)
  have w1: "w1 = w\<lparr>fetched := fetched w @ [manifestURL x u]\<rparr>"
    using snd_fetchInfo [of x w u] m by simp
  assume n: "PublicKey u \<noteq> None \<and> Signature info = None"
  have U: "Update x w u = (Returned (Inl ErrNoSignature), w1)"
    using t o m v c n by (simp add: Update_def)
  show "fst (Update x w u) = Returned (Inl ErrNoSignature)" unfolding U by simp
  show "fetched (snd (Update x w u)) = fetched w @ [manifestURL x u]" unfolding U by (simp add: w1)
  show "logged (snd (Update x w u)) = logged w" unfolding U by (simp add: w1)
next
  assume k: "PublicKey u = None \<or> Signature info \<noteq> None"
  let ?B = "fetched (snd (Update x w u))
              = fetched w
                @ [manifestURL x u,
                   QueryEscape (CmdName u) @ ''/'' @ QueryEscape (CurrentVersion u) @ ''/''
                     @ QueryEscape (Version info) @ ''/'' @ QueryEscape (plat x)]
                @ (case fst (fetchAndVerifyPatch x w1 u info old) of
                     Inl e \<Rightarrow> [binURL x u info]
                   | Inr bin \<Rightarrow> [])
            \<and> (\<exists>ls. logged (snd (Update x w u)) = logged w @ ls
                     \<and> (\<forall>e. LogErrorPatching e \<notin> set ls))"
  have "?B"
  proof -
    have w1: "w1 = w\<lparr>fetched := fetched w @ [manifestURL x u]\<rparr>"
      using snd_fetchInfo [of x w u] m by simp
    have pu: "patchURL x u info = QueryEscape (CmdName u) @ ''/'' @ QueryEscape (CurrentVersion u) @ ''/''
                    @ QueryEscape (Version info) @ ''/'' @ QueryEscape (plat x)"
      by (simp add: patchURL_def d)
    obtain rp w2 where pv: "fetchAndVerifyPatch x w1 u info old = (rp, w2)"
      by (cases "fetchAndVerifyPatch x w1 u info old")
    have w2: "w2 = w1\<lparr>fetched := fetched w1 @ [patchURL x u info]\<rparr>"
      using fetchAndVerifyPatch_snd [of x w1 u info old] pv by simp
    have f2: "fetched w2 = fetched w @ [manifestURL x u, patchURL x u info]"
      by (simp add: w2 w1)
    have l2: "logged w2 = logged w"
      by (simp add: w2 w1)
    have fp: "fst (fetchAndVerifyPatch x w1 u info old) = rp"
      by (simp add: pv)
    show ?B
    proof (cases rp)
      case (Inr bin)
      have U: "Update x w u = (case applyBinary w2 info bin of (r, w4) \<Rightarrow> (Returned r, w4))"
        unfolding Update_after_manifest [OF t o m v c k] pv Inr by simp
      have s: "snd (applyBinary w2 info bin) = w2\<lparr>installed := installed w2 @ [bin]\<rparr>"
        by (rule applyBinary_snd)
      obtain r4 w4 where ab: "applyBinary w2 info bin = (r4, w4)"
        by (cases "applyBinary w2 info bin")
      have w4: "w4 = w2\<lparr>installed := installed w2 @ [bin]\<rparr>" using s ab by simp
      have "snd (Update x w u) = w4" using U ab by simp
      then have "fetched (snd (Update x w u)) = fetched w2" "logged (snd (Update x w u)) = logged w @ []"
        by (simp_all add: w4 l2)
      then show ?thesis
        unfolding fp Inr f2 pu by simp

    next
      case (Inl err)
      obtain ls where w3: "snd (fallbackFullBin x w2 u info err)
         = w2\<lparr>fetched := fetched w2 @ [binURL x u info],
               logged := logged w2
                 @ (if err = ErrHashMismatch then [LogHashMismatchPatched]
                    else if DiffURL u \<noteq> [] then [LogErrorPatching err] else [])
                 @ ls\<rparr>" and nl: "\<forall>e. LogErrorPatching e \<notin> set ls"
        using fallbackFullBin_snd [of x w2 u info err] by blast
      obtain r w3 where fb: "fallbackFullBin x w2 u info err = (r, w3)"
        by (cases "fallbackFullBin x w2 u info err")
      have f3: "fetched w3 = fetched w @ [manifestURL x u, patchURL x u info, binURL x u info]"
        using w3 fb by (simp add: f2)
      have l3: "logged w3 = logged w @ (if err = ErrHashMismatch then [LogHashMismatchPatched] else []) @ ls"
        using w3 fb by (simp add: l2 d)
      have U: "Update x w u =
          (case r of
             Inl e \<Rightarrow> (Returned (Inl e), w3)
           | Inr bin \<Rightarrow> (case applyBinary w3 info bin of (r, w4) \<Rightarrow> (Returned r, w4)))"
        unfolding Update_after_manifest [OF t o m v c k] pv Inl by (simp add: fb)
      have fl: "fetched (snd (Update x w u)) = fetched w3 \<and> logged (snd (Update x w u)) = logged w3"
      proof (cases r)
        case (Inl e)
        then show ?thesis using U by simp
      next
        case (Inr bin)
        obtain r4 w4 where ab: "applyBinary w3 info bin = (r4, w4)"
          by (cases "applyBinary w3 info bin")
        have "w4 = w3\<lparr>installed := installed w3 @ [bin]\<rparr>"
          using applyBinary_snd [of w3 info bin] ab by simp
        then show ?thesis using U Inr ab by simp
      qed
      have nl': "\<forall>e. LogErrorPatching e \<notin> set ((if err = ErrHashMismatch then [LogHashMismatchPatched] else []) @ ls)"
        using nl by simp
      have "logged (snd (Update x w u))
          = logged w @ ((if err = ErrHashMismatch then [LogHashMismatchPatched] else []) @ ls)"
        using fl l3 by simp
      then have "\<exists>ls. logged (snd (Update x w u)) = logged w @ ls \<and> (\<forall>e. LogErrorPatching e \<notin> set ls)"
        using nl' by (intro exI conjI)
      moreover have "fetched (snd (Update x w u))
             = fetched w
               @ [manifestURL x u,
                  QueryEscape (CmdName u) @ ''/'' @ QueryEscape (CurrentVersion u) @ ''/''
                    @ QueryEscape (Version info) @ ''/'' @ QueryEscape (plat x)]
               @ (case fst (fetchAndVerifyPatch x w1 u info old) of
                    Inl e \<Rightarrow> [binURL x u info]
                  | Inr bin \<Rightarrow> [])"
        unfolding fp Inl using fl f3 by (simp add: pu)
      ultimately show ?thesis by (rule_tac conjI)
    qed

  qed
  then show "fetched (snd (Update x w u))
              = fetched w
                @ [manifestURL x u,
                   QueryEscape (CmdName u) @ ''/'' @ QueryEscape (CurrentVersion u) @ ''/''
                     @ QueryEscape (Version info) @ ''/'' @ QueryEscape (plat x)]
                @ (case fst (fetchAndVerifyPatch x w1 u info old) of
                     Inl e \<Rightarrow> [binURL x u info]
                   | Inr bin \<Rightarrow> [])"
    and "\<exists>ls. logged (snd (Update x w u)) = logged w @ ls
                     \<and> (\<forall>e. LogErrorPatching e \<notin> set ls)"
    by (rule conjunct1, rule conjunct2)
qed

theorem Update_empty_DiffURL_fetches_patch_witness:
  "(fst (Update example_externals example_world
            ((createUpdater unsigned_manifest_requester)\<lparr>DiffURL := [], PublicKey := Some example_key\<rparr>))
      = Returned (Inl ErrNoSignature)
    \<and> fetched (snd (Update example_externals example_world
            ((createUpdater unsigned_manifest_requester)\<lparr>DiffURL := [], PublicKey := Some example_key\<rparr>)))
      = [''http://api.updates.yourdomain.com/myapp/linux-amd64.json''])
   \<and> (fetched (snd (Update example_externals example_world
            ((createUpdater patch_only_requester)\<lparr>DiffURL := []\<rparr>)))
      = [''http://api.updates.yourdomain.com/myapp/linux-amd64.json'', ''myapp/1.2/1.3/linux-amd64'',
         ''http://bin.updates.yourdownmain.com/myapp/1.3/linux-amd64.gz'']
    \<and> (\<exists>ls. logged (snd (Update example_externals example_world
            ((createUpdater patch_only_requester)\<lparr>DiffURL := []\<rparr>))) = ls
         \<and> (\<forall>e. LogErrorPatching e \<notin> set ls))
    \<and> logged (snd (Update example_externals example_world
            ((createUpdater patch_only_requester)\<lparr>DiffURL := []\<rparr>)))
      = [LogErrorFetchingFull (ErrOther ''Bad status code on binary: 404'')])"
proof (rule conjI)
  let ?u = "(createUpdater unsigned_manifest_requester)\<lparr>DiffURL := [], PublicKey := Some example_key\<rparr>"
  let ?i = "\<lparr>Version = ''1.3'', Sha256 = example_digest ''NEW'', Signature = None\<rparr>"
  have d: "DiffURL ?u = []" by simp
  have t: "getTargetAbsoluteDir example_world ?u = Returned ''/opt/app/myapp''"
    by (simp add: getTargetAbsoluteDir_def example_defs)
  have o: "files example_world ''/opt/app/myapp'' = Inr ''OLD''"
    by (simp add: example_defs)
  have v: "Version ?i \<noteq> []" by simp
  have c: "Version ?i \<noteq> CurrentVersion ?u" by (simp add: createUpdater_def)
  have n: "PublicKey ?u \<noteq> None \<and> Signature ?i = None" by simp
  have urls: "manifestURL example_externals ?u = ''http://api.updates.yourdomain.com/myapp/linux-amd64.json''"
    by (simp add: example_defs url_defs)
  have e: "fetched example_world = []" by (simp add: example_defs)
  from Update_empty_DiffURL_fetches_patch [OF d t o example_unsigned_manifest_fetch v c, THEN conjunct1] n
  show "fst (Update example_externals example_world ?u) = Returned (Inl ErrNoSignature)
    \<and> fetched (snd (Update example_externals example_world ?u))
      = [''http://api.updates.yourdomain.com/myapp/linux-amd64.json'']"
    unfolding urls e by simp
next
  let ?u = "(createUpdater patch_only_requester)\<lparr>DiffURL := []\<rparr>"
  let ?i = "\<lparr>Version = ''1.3'', Sha256 = example_digest ''NEW'', Signature = Some ''forged''\<rparr>"
  let ?w2 = "example_world\<lparr>fetched := [''http://api.updates.yourdomain.com/myapp/linux-amd64.json'',
           ''myapp/1.2/1.3/linux-amd64'']\<rparr>"
  have d: "DiffURL ?u = []" by simp
  have t: "getTargetAbsoluteDir example_world ?u = Returned ''/opt/app/myapp''"
    by (simp add: getTargetAbsoluteDir_def example_defs)
  have o: "files example_world ''/opt/app/myapp'' = Inr ''OLD''"
    by (simp add: example_defs)
  have v: "Version ?i \<noteq> []" by simp
  have c: "Version ?i \<noteq> CurrentVersion ?u" by (simp add: createUpdater_def)
  have k: "PublicKey ?u = None \<or> Signature ?i \<noteq> None" by simp
  have urls: "manifestURL example_externals ?u = ''http://api.updates.yourdomain.com/myapp/linux-amd64.json''"
    "QueryEscape (CmdName ?u) @ ''/'' @ QueryEscape (CurrentVersion ?u) @ ''/''
       @ QueryEscape (Version ?i) @ ''/'' @ QueryEscape (plat example_externals)
     = ''myapp/1.2/1.3/linux-amd64''"
    "binURL example_externals ?u ?i = ''http://bin.updates.yourdownmain.com/myapp/1.3/linux-amd64.gz''"
    by (simp_all add: example_defs url_defs)
  have e: "fetched example_world = []" "logged example_world = []" by (simp_all add: example_defs)
  have fb: "fallbackFullBin example_externals ?w2 ?u ?i (ErrOther ''Bad status code on binary: 404'')
     = (Inl (ErrOther ''Bad status code on binary: 404''),
        example_world\<lparr>fetched := [''http://api.updates.yourdomain.com/myapp/linux-amd64.json'',
            ''myapp/1.2/1.3/linux-amd64'',
            ''http://bin.updates.yourdownmain.com/myapp/1.3/linux-amd64.gz''],
          logged := [LogErrorFetchingFull (ErrOther ''Bad status code on binary: 404'')]\<rparr>)"
    by (simp add: fallbackFullBin_def logPrintln_def fetchAndVerifyFullBin_def fetchBin_def
        fetch_def patch_only_requester_def example_defs url_defs)
  have U: "Update example_externals example_world ?u
     = (Returned (Inl (ErrOther ''Bad status code on binary: 404'')),
        example_world\<lparr>fetched := [''http://api.updates.yourdomain.com/myapp/linux-amd64.json'',
            ''myapp/1.2/1.3/linux-amd64'',
            ''http://bin.updates.yourdownmain.com/myapp/1.3/linux-amd64.gz''],
          logged := [LogErrorFetchingFull (ErrOther ''Bad status code on binary: 404'')]\<rparr>)"
    unfolding Update_after_manifest [OF t o example_missing_patch_manifest_fetch v c k]
      example_missing_patch
    by (simp add: fb)
  have lg: "logged (snd (Update example_externals example_world ?u))
      = [LogErrorFetchingFull (ErrOther ''Bad status code on binary: 404'')]"
    unfolding U by simp
  from Update_empty_DiffURL_fetches_patch [OF d t o example_missing_patch_manifest_fetch v c, THEN conjunct2] k
  have "fetched (snd (Update example_externals example_world ?u))
      = [''http://api.updates.yourdomain.com/myapp/linux-amd64.json'', ''myapp/1.2/1.3/linux-amd64'',
         ''http://bin.updates.yourdownmain.com/myapp/1.3/linux-amd64.gz'']
    \<and> (\<exists>ls. logged (snd (Update example_externals example_world ?u)) = ls
         \<and> (\<forall>e. LogErrorPatching e \<notin> set ls))"
    unfolding urls example_missing_patch e by simp
  then show "fetched (snd (Update example_externals example_world ?u))
      = [''http://api.updates.yourdomain.com/myapp/linux-amd64.json'', ''myapp/1.2/1.3/linux-amd64'',
         ''http://bin.updates.yourdownmain.com/myapp/1.3/linux-amd64.gz'']
    \<and> (\<exists>ls. logged (snd (Update example_externals example_world ?u)) = ls
         \<and> (\<forall>e. LogErrorPatching e \<notin> set ls))
    \<and> logged (snd (Update example_externals example_world ?u))
      = [LogErrorFetchingFull (ErrOther ''Bad status code on binary: 404'')]"
    using lg by (intro conjI) (rule conjunct1, assumption, rule conjunct2, assumption, assumption)
qed

text \<open>
  The claim as it is stated fails: with \<open>DiffURL\<close> empty and a requester that serves the
  relative patch URL, \<open>Update\<close> requests that URL after the manifest, applies the patch
  and installs the patched binary, without a request for the full binary.
\<close>

theorem Update_empty_DiffURL_counterexample:
  "DiffURL ((createUpdater relative_patch_requester)\<lparr>DiffURL := []\<rparr>) = []
   \<and> fst (Update example_externals example_world
            ((createUpdater relative_patch_requester)\<lparr>DiffURL := []\<rparr>))
     = Returned (Inr \<lparr>Version = ''1.3'', Sha256 = example_digest ''NEW'', Signature = Some ''forged''\<rparr>)
   \<and> fetched (snd (Update example_externals example_world
            ((createUpdater relative_patch_requester)\<lparr>DiffURL := []\<rparr>)))
     = [''http://api.updates.yourdomain.com/myapp/linux-amd64.json'', ''myapp/1.2/1.3/linux-amd64'']
   \<and> installed (snd (Update example_externals example_world
            ((createUpdater relative_patch_requester)\<lparr>DiffURL := []\<rparr>)))
     = [''NEW'']"
proof -
  let ?u = "(createUpdater relative_patch_requester)\<lparr>DiffURL := []\<rparr>"
  let ?i = "\<lparr>Version = ''1.3'', Sha256 = example_digest ''NEW'', Signature = Some ''forged''\<rparr>"
  have t: "getTargetAbsoluteDir example_world ?u = Returned ''/opt/app/myapp''"
    by (simp add: getTargetAbsoluteDir_def example_defs)
  have o: "files example_world ''/opt/app/myapp'' = Inr ''OLD''"
    by (simp add: example_defs)
  have v: "Version ?i \<noteq> []" by simp
  have c: "Version ?i \<noteq> CurrentVersion ?u" by (simp add: createUpdater_def)
  have k: "PublicKey ?u = None \<or> Signature ?i \<noteq> None" by simp
  have U: "Update example_externals example_world ?u
     = (Returned (Inr ?i),
        example_world\<lparr>fetched := [''http://api.updates.yourdomain.com/myapp/linux-amd64.json'',
            ''myapp/1.2/1.3/linux-amd64''],
          installed := [''NEW'']\<rparr>)"
    unfolding Update_after_manifest [OF t o example_relative_manifest_fetch v c k]
      example_relative_patch
    by (simp add: applyBinary_def example_world_def)
  show ?thesis
    unfolding U by simp
qed

subsection \<open>BackgroundRun\<close>

text \<open>
  Claim C10. Once the state directory exists, \<open>WantUpdate\<close> is true and \<open>CanUpdate\<close>
  succeeds, \<open>BackgroundRun\<close> is \<open>Update\<close> run in the world \<open>SetUpdateTime\<close> leaves, whatever
  boolean \<open>SetUpdateTime\<close> returned. In particular, when the cooldown file cannot be
  written, \<open>SetUpdateTime\<close> returns false and leaves the world as it was, and
  \<open>BackgroundRun\<close> returns what \<open>Update\<close> returns: the failed write is neither an error of
  \<open>BackgroundRun\<close> nor a reason to skip \<open>Update\<close>.
\<close>

theorem BackgroundRun_discards_SetUpdateTime:
  assumes dir: "getExecRelativeDir x w u (Dir u) = Returned d"
    and mk: "mkdir_failure w d = None"
    and want: "WantUpdate x w u = Returned True"
    and can: "up_CanUpdate w = None"
  shows "(\<forall>ok w1. SetUpdateTime x w u = (Returned ok, w1) \<longrightarrow> BackgroundRun x w u = Update x w1 u)
       \<and> (\<forall>path e. getExecRelativeDir x w u (Dir u @ upcktimePath) = Returned path
              \<and> write_failure w path = Some e \<and> 0 < sint (RandomizeTime u + 1) \<longrightarrow>
            SetUpdateTime x w u = (Returned False, w) \<and> BackgroundRun x w u = Update x w u)"
proof (intro conjI allI impI)
  fix ok w1
  assume s: "SetUpdateTime x w u = (Returned ok, w1)"
  show g: "BackgroundRun x w u = Update x w1 u"
    by (simp add: BackgroundRun_def dir mk want can s)
next
  fix path e
  assume a: "getExecRelativeDir x w u (Dir u @ upcktimePath) = Returned path
              \<and> write_failure w path = Some e \<and> 0 < sint (RandomizeTime u + 1)"
  then have i: "rand_Intn w (RandomizeTime u + 1)
      = Returned (of_nat (rand_source w mod nat (sint (RandomizeTime u + 1))))"
    by (simp add: rand_Intn_def)
  show s: "SetUpdateTime x w u = (Returned False, w)"
    using a by (simp add: SetUpdateTime_def i Let_def writeTime_def)
  show "BackgroundRun x w u = Update x w u"
    by (simp add: BackgroundRun_def dir mk want can s)
qed

theorem BackgroundRun_discards_SetUpdateTime_witness:
  "SetUpdateTime example_externals
       (example_world\<lparr>write_failure := (\<lambda>p. Some (ErrOther ''permission denied''))\<rparr>)
       ((createUpdater empty_manifest_requester)\<lparr>ForceCheck := True\<rparr>)
     = (Returned False, example_world\<lparr>write_failure := (\<lambda>p. Some (ErrOther ''permission denied''))\<rparr>)
   \<and> BackgroundRun example_externals
       (example_world\<lparr>write_failure := (\<lambda>p. Some (ErrOther ''permission denied''))\<rparr>)
       ((createUpdater empty_manifest_requester)\<lparr>ForceCheck := True\<rparr>)
     = Update example_externals
       (example_world\<lparr>write_failure := (\<lambda>p. Some (ErrOther ''permission denied''))\<rparr>)
       ((createUpdater empty_manifest_requester)\<lparr>ForceCheck := True\<rparr>)
   \<and> fetched (snd (BackgroundRun example_externals
       (example_world\<lparr>write_failure := (\<lambda>p. Some (ErrOther ''permission denied''))\<rparr>)
       ((createUpdater empty_manifest_requester)\<lparr>ForceCheck := True\<rparr>)))
     = [''http://api.updates.yourdomain.com/myapp/linux-amd64.json'']"
proof -
  let ?w = "example_world\<lparr>write_failure := (\<lambda>p. Some (ErrOther ''permission denied''))\<rparr>"
  let ?u = "(createUpdater empty_manifest_requester)\<lparr>ForceCheck := True\<rparr>"
  have dir: "getExecRelativeDir example_externals ?w ?u (Dir ?u) = Returned ''/opt/app/update/''"
    by (simp add: getExecRelativeDir_def getTargetAbsoluteDir_def example_defs)
  have mk: "mkdir_failure ?w ''/opt/app/update/'' = None" by (simp add: example_defs)
  have want: "WantUpdate example_externals ?w ?u = Returned True"
    by (simp add: WantUpdate_def createUpdater_def)
  have can: "up_CanUpdate ?w = None" by (simp add: example_defs)
  have p: "getExecRelativeDir example_externals ?w ?u (Dir ?u @ upcktimePath)
      = Returned ''/opt/app/update/cktime''"
    by (simp add: getExecRelativeDir_def getTargetAbsoluteDir_def upcktimePath_def example_defs)
  have wf: "write_failure ?w ''/opt/app/update/cktime'' = Some (ErrOther ''permission denied'')"
    by simp
  have pos: "0 < sint (RandomizeTime ?u + 1)" by (simp add: createUpdater_def)
  from BackgroundRun_discards_SetUpdateTime [OF dir mk want can] p wf pos
  have s: "SetUpdateTime example_externals ?w ?u = (Returned False, ?w)"
    and b: "BackgroundRun example_externals ?w ?u = Update example_externals ?w ?u"
    by blast+
  have t: "getTargetAbsoluteDir ?w ?u = Returned ''/opt/app/myapp''"
    by (simp add: getTargetAbsoluteDir_def example_defs)
  have o: "files example_world ''/opt/app/myapp'' = Inr ''OLD''"
    by (simp add: example_defs)
  have fi: "fetchInfo example_externals ?w ?u
      = (Inr emptyInfo, ?w\<lparr>fetched := [''http://api.updates.yourdomain.com/myapp/linux-amd64.json'']\<rparr>)"
    by (simp add: fetchInfo_def fetch_def empty_manifest_requester_def sha256_Size_def example_defs url_defs)
  have "fetched (snd (Update example_externals ?w ?u))
      = [''http://api.updates.yourdomain.com/myapp/linux-amd64.json'']"
    unfolding Update_def t by (simp add: o fi emptyInfo_def)
  then show ?thesis using s b by simp
qed

section \<open>Properties of the release builder\<close>

subsection \<open>The file operations\<close>

lemma map_of_WriteFile:
  "map_of (snd (ioutil_WriteFile fs q b)) q' =
     (if fst (ioutil_WriteFile fs q b) = None \<and> q' = q then Some (File b) else map_of fs q')"
  by (simp add: ioutil_WriteFile_def update_conv')

lemma WriteFile_ok_iff:
  "fst (ioutil_WriteFile fs q b) = None \<longleftrightarrow>
     (q \<noteq> [] \<and> map_of fs (butlast q) = Some Directory \<and> map_of fs q \<noteq> Some Directory)"
  by (simp add: ioutil_WriteFile_def)

lemma map_of_Mkdir:
  "map_of (snd (os_Mkdir fs q)) q' =
     (if map_of fs (butlast q) = Some Directory \<and> map_of fs q = None \<and> q \<noteq> [] \<and> q' = q
      then Some Directory else map_of fs q')"
  by (simp add: os_Mkdir_def update_conv')

lemma map_of_MkdirAll_single:
  "map_of fs [] = Some Directory \<Longrightarrow>
   map_of (snd (os_MkdirAll fs [v])) q =
     (if q = [v] \<and> map_of fs [v] = None then Some Directory else map_of fs q)"
  by (simp add: os_MkdirAll_def update_conv' split: option.splits node.splits)

lemma ReadDir_mem:
  "map_of fs [] = Some Directory \<Longrightarrow> map_of fs [D] = Some Directory \<Longrightarrow>
   \<exists>es. ioutil_ReadDir fs [] = Inr es \<and> (D, True) \<in> set es"
proof -
  assume r: "map_of fs [] = Some Directory" and d: "map_of fs [D] = Some Directory"
  from d have "([D], Directory) \<in> set fs" by (rule map_of_SomeD)
  then have "(D, True) \<in> (\<lambda>(p, nd). (last p, nd = Directory)) ` set (filter (\<lambda>(p, nd). p \<noteq> [] \<and> butlast p = []) fs)"
    by force
  then show ?thesis
    by (simp add: ioutil_ReadDir_def r)
qed

subsection \<open>The loop over the earlier releases\<close>

text \<open>
  One pass of the loop keeps \<open>patch_inv\<close> and the patches made so far, and, for a release
  that was a directory with a gzip file for the platform when the loop began, it leaves
  the patch in place.
\<close>

lemma createPatch_step:
  assumes ne: "v \<noteq> p @ ''.gz''"
    and nw: "map_of fs0 [v, p @ ''.gz''] = Some (File nb)" and nr: "gzip_Read x nb = Inr br"
    and inv: "patch_inv fs0 fs v p"
    and st: "createPatch x v p fs name = Completed fs2"
  shows "patch_inv fs0 fs2 v p
       \<and> (\<forall>D. patched x fs0 fs v p br D \<longrightarrow> patched x fs0 fs2 v p br D)
       \<and> (map_of fs0 [name] = Some Directory \<and> (\<exists>og. map_of fs0 [name, p @ ''.gz''] = Some (File og))
            \<longrightarrow> patched x fs0 fs2 v p br name)"
proof -
  let ?fs1 = "snd (os_Mkdir fs [name, v])"
  have i1: "\<And>q. length q \<le> 2 \<Longrightarrow> (\<forall>D. q \<noteq> [D, v]) \<Longrightarrow> map_of fs q = map_of fs0 q"
    and i2: "\<And>D b. map_of fs [D, v] \<noteq> Some (File b)"
    and i3: "\<And>D. map_of fs [D, v, p] \<noteq> Some Directory"
    using inv by (auto simp: patch_inv_def)
  have m1: "map_of ?fs1 q = map_of fs q" if "q \<noteq> [name, v]" for q
    using that by (simp add: map_of_Mkdir)
  have m2: "map_of ?fs1 [name, v] \<noteq> Some (File b)" for b
    using i2 [of name b] by (simp add: map_of_Mkdir)
  have inv1: "patch_inv fs0 ?fs1 v p"
    unfolding patch_inv_def
  proof (intro conjI allI impI)
    fix q assume "length q \<le> 2 \<and> (\<forall>D. q \<noteq> [D, v])"
    then show "map_of ?fs1 q = map_of fs0 q" using m1 [of q] i1 [of q] by simp
  next
    fix D b show "map_of ?fs1 [D, v] \<noteq> Some (File b)"
      using m1 [of "[D, v]"] m2 [of b] i2 [of D b] by (cases "D = name") simp_all
  next
    fix D show "map_of ?fs1 [D, v, p] \<noteq> Some Directory"
      using m1 [of "[D, v, p]"] i3 [of D] by simp
  qed
  have pre1: "patched x fs0 ?fs1 v p br D" if "patched x fs0 fs v p br D" for D
    using that m1 [of "[D, v, p]"] by (simp add: patched_def)
  have old_eq: "map_of ?fs1 [name, p @ ''.gz''] = map_of fs0 [name, p @ ''.gz'']"
    using m1 [of "[name, p @ ''.gz'']"] i1 [of "[name, p @ ''.gz'']"] ne by auto
  have new_eq: "map_of ?fs1 [v, p @ ''.gz''] = Some (File nb)"
    using m1 [of "[v, p @ ''.gz'']"] i1 [of "[v, p @ ''.gz'']"] ne nw by auto
  show ?thesis
  proof (cases "map_of fs0 [name, p @ ''.gz'']")
    case None
    then have "fs2 = ?fs1"
      using st old_eq by (simp add: createPatch_def Let_def os_Open_def)
    then show ?thesis using inv1 pre1 None by simp
  next
    case (Some old)
    have cont: "\<exists>og ar delta. old = File og \<and> gzip_Read x og = Inr ar
        \<and> binarydist_Diff x ar br = Inr delta
        \<and> fs2 = snd (ioutil_WriteFile ?fs1 [name, v, p] delta)"
      using st old_eq new_eq Some nr
      by (simp add: createPatch_def Let_def os_Open_def newGzReader_def
          split: sum.splits node.splits)
    then obtain og ar delta where og: "old = File og" and ar: "gzip_Read x og = Inr ar"
      and dl: "binarydist_Diff x ar br = Inr delta"
      and f2: "fs2 = snd (ioutil_WriteFile ?fs1 [name, v, p] delta)" by blast
    have w: "map_of fs2 q = (if fst (ioutil_WriteFile ?fs1 [name, v, p] delta) = None \<and> q = [name, v, p]
        then Some (File delta) else map_of ?fs1 q)" for q
      unfolding f2 by (rule map_of_WriteFile)
    have inv2: "patch_inv fs0 fs2 v p"
      unfolding patch_inv_def
    proof (intro conjI allI impI)
      fix q assume a: "length q \<le> 2 \<and> (\<forall>D. q \<noteq> [D, v])"
      then have "q \<noteq> [name, v, p]" by auto
      then have "map_of fs2 q = map_of ?fs1 q" using w [of q] by simp
      then show "map_of fs2 q = map_of fs0 q" using inv1 a by (simp add: patch_inv_def)
    next
      fix D b have "map_of fs2 [D, v] = map_of ?fs1 [D, v]" using w [of "[D, v]"] by simp
      then show "map_of fs2 [D, v] \<noteq> Some (File b)" using inv1 by (simp add: patch_inv_def)
    next
      fix D show "map_of fs2 [D, v, p] \<noteq> Some Directory"
        using w [of "[D, v, p]"] inv1 by (simp add: patch_inv_def)
    qed
    have pre2: "patched x fs0 fs2 v p br D" if h: "patched x fs0 fs v p br D" for D
    proof (cases "fst (ioutil_WriteFile ?fs1 [name, v, p] delta) = None \<and> D = name")
      case True
      then have "map_of fs2 [name, v, p] = Some (File delta)" using w [of "[name, v, p]"] by simp
      then show ?thesis using True Some og ar dl by (auto simp: patched_def)
    next
      case False
      then have "map_of fs2 [D, v, p] = map_of ?fs1 [D, v, p]" using w [of "[D, v, p]"] by auto
      then show ?thesis using pre1 [OF h] by (simp add: patched_def)
    qed
    have fin: "patched x fs0 fs2 v p br name" if d: "map_of fs0 [name] = Some Directory"
    proof -
      have nd: "map_of fs [name] = Some Directory" using i1 [of "[name]"] d by simp
      have "map_of ?fs1 [name, v] = Some Directory"
      proof (cases "map_of fs [name, v]")
        case None
        then show ?thesis using nd by (simp add: map_of_Mkdir)
      next
        case (Some a)
        then have "a = Directory" using i2 [of name] by (cases a) auto
        then show ?thesis using Some nd by (simp add: map_of_Mkdir)
      qed
      moreover have "map_of ?fs1 [name, v, p] \<noteq> Some Directory"
        using inv1 by (simp add: patch_inv_def)
      ultimately have "fst (ioutil_WriteFile ?fs1 [name, v, p] delta) = None"
        by (simp add: WriteFile_ok_iff)
      then have "map_of fs2 [name, v, p] = Some (File delta)" using w [of "[name, v, p]"] by simp
      then show ?thesis using Some og ar dl by (auto simp: patched_def)
    qed
    show ?thesis using inv2 pre2 fin by blast
  qed
qed

lemma createPatches_loop:
  assumes ne: "v \<noteq> p @ ''.gz''"
    and nw: "map_of fs0 [v, p @ ''.gz''] = Some (File nb)" and nr: "gzip_Read x nb = Inr br"
  shows "patch_inv fs0 fs v p \<Longrightarrow> createPatches x v p fs es = Completed fs' \<Longrightarrow>
     patch_inv fs0 fs' v p
     \<and> (\<forall>D. patched x fs0 fs v p br D \<longrightarrow> patched x fs0 fs' v p br D)
     \<and> (\<forall>D. (D, True) \<in> set es \<and> D \<noteq> v \<and> map_of fs0 [D] = Some Directory
              \<and> (\<exists>og. map_of fs0 [D, p @ ''.gz''] = Some (File og))
            \<longrightarrow> patched x fs0 fs' v p br D)"
proof (induction es arbitrary: fs)
  case Nil
  then show ?case by simp
next
  case (Cons e es)
  obtain name isDir where e: "e = (name, isDir)" by (cases e)
  show ?case
  proof (cases "isDir = False \<or> name = v")
    case True
    then have "createPatches x v p fs es = Completed fs'"
      using Cons.prems(2) e by (cases isDir) auto
    from Cons.IH [OF Cons.prems(1) this] show ?thesis using True e by auto
  next
    case False
    then obtain fs2 where st: "createPatch x v p fs name = Completed fs2"
      and rest: "createPatches x v p fs2 es = Completed fs'"
      using Cons.prems(2) e by (cases isDir) (auto split: build_result.splits)
    from createPatch_step [OF ne nw nr Cons.prems(1) st]
    have inv2: "patch_inv fs0 fs2 v p"
      and pre: "\<And>D. patched x fs0 fs v p br D \<Longrightarrow> patched x fs0 fs2 v p br D"
      and dn: "map_of fs0 [name] = Some Directory \<and> (\<exists>og. map_of fs0 [name, p @ ''.gz''] = Some (File og))
            \<Longrightarrow> patched x fs0 fs2 v p br name"
      by blast+
    from Cons.IH [OF inv2 rest]
    have inv': "patch_inv fs0 fs' v p"
      and pre': "\<And>D. patched x fs0 fs2 v p br D \<Longrightarrow> patched x fs0 fs' v p br D"
      and dn': "\<And>D. (D, True) \<in> set es \<and> D \<noteq> v \<and> map_of fs0 [D] = Some Directory
              \<and> (\<exists>og. map_of fs0 [D, p @ ''.gz''] = Some (File og))
            \<Longrightarrow> patched x fs0 fs' v p br D"
      by blast+
    show ?thesis
    proof (intro conjI allI impI)
      show "patch_inv fs0 fs' v p" by (rule inv')
    next
      fix D assume "patched x fs0 fs v p br D"
      then show "patched x fs0 fs' v p br D" using pre pre' by blast
    next
      fix D assume a: "(D, True) \<in> set (e # es) \<and> D \<noteq> v \<and> map_of fs0 [D] = Some Directory
              \<and> (\<exists>og. map_of fs0 [D, p @ ''.gz''] = Some (File og))"
      show "patched x fs0 fs' v p br D"
      proof (cases "D = name")
        case True
        then show ?thesis using a dn pre' by blast
      next
        case False
        then have "(D, True) \<in> set es" using a e by auto
        then show ?thesis using a dn' by blast
      qed
    qed
  qed
qed

subsection \<open>When the ignored writes succeed\<close>

text \<open>
  \<open>CreateUpdate\<close> checks the error of writing the manifest and of reading the source, and
  ignores the errors of \<open>os.MkdirAll\<close>, of writing the gzip file, of \<open>os.Mkdir\<close> and of
  writing a patch. The next lemma gives conditions on the output directory under which
  none of the ignored operations fails: the version is not the name of the manifest or of
  the gzip file, no regular file has the name of the version, in the output directory or
  in a release, and no directory has the name of the gzip file or of a patch. Then,
  with a gzip reader that undoes the writer and a patch codec that undoes the diff, a
  call that completes leaves the manifest, the gzip file of the source and, for every
  earlier release with a gzip file for the platform, a patch that turns the content of
  that file into the source.
\<close>

lemma CreateUpdate_Completed:
  assumes run: "CreateUpdate x ver (Inr f) p genDir pk = Completed fs'"
  shows "\<exists>b. fst (ioutil_WriteFile genDir [p @ ''.json''] b) = None
     \<and> createPatches x (Version ver) p
        (snd (ioutil_WriteFile
           (snd (os_MkdirAll (snd (ioutil_WriteFile genDir [p @ ''.json''] b)) [Version ver]))
           [Version ver, p @ ''.gz''] (gzip_Write x f)))
        (case ioutil_ReadDir
           (snd (ioutil_WriteFile
             (snd (os_MkdirAll (snd (ioutil_WriteFile genDir [p @ ''.json''] b)) [Version ver]))
             [Version ver, p @ ''.gz''] (gzip_Write x f))) [] of Inl err \<Rightarrow> [] | Inr es \<Rightarrow> es)
       = Completed fs'"
proof -
  let ?c = "\<lparr>Version = Version ver, Sha256 = GenerateSha256 x (Inr f), Signature = None\<rparr>"
  let ?P = "\<lambda>b. fst (ioutil_WriteFile genDir [p @ ''.json''] b) = None
     \<and> createPatches x (Version ver) p
        (snd (ioutil_WriteFile
           (snd (os_MkdirAll (snd (ioutil_WriteFile genDir [p @ ''.json''] b)) [Version ver]))
           [Version ver, p @ ''.gz''] (gzip_Write x f)))
        (case ioutil_ReadDir
           (snd (ioutil_WriteFile
             (snd (os_MkdirAll (snd (ioutil_WriteFile genDir [p @ ''.json''] b)) [Version ver]))
             [Version ver, p @ ''.gz''] (gzip_Write x f))) [] of Inl err \<Rightarrow> [] | Inr es \<Rightarrow> es)
       = Completed fs'"
  let ?b = "\<lambda>c. case json_MarshalIndent x c of Inl err \<Rightarrow> [] | Inr b \<Rightarrow> b"
  note r = run [unfolded CreateUpdate_def Let_def sum.case]
  have step: "?P (?b c)"
    if h: "(case ioutil_WriteFile genDir [p @ ''.json''] (?b c) of
          (Some err, fs1) \<Rightarrow> BuildPanicked err
        | (None, fs1) \<Rightarrow> createPatches x (Version ver) p
            (snd (ioutil_WriteFile (snd (os_MkdirAll fs1 [Version ver]))
               [Version ver, p @ ''.gz''] (gzip_Write x f)))
            (case ioutil_ReadDir
               (snd (ioutil_WriteFile (snd (os_MkdirAll fs1 [Version ver]))
                 [Version ver, p @ ''.gz''] (gzip_Write x f))) [] of Inl err \<Rightarrow> [] | Inr es \<Rightarrow> es))
       = Completed fs'" for c
  proof -
    obtain eo fs1 where W: "ioutil_WriteFile genDir [p @ ''.json''] (?b c) = (eo, fs1)"
      by (cases "ioutil_WriteFile genDir [p @ ''.json''] (?b c)")
    show ?thesis
    proof (cases eo)
      case None
      have "createPatches x (Version ver) p
            (snd (ioutil_WriteFile (snd (os_MkdirAll fs1 [Version ver]))
               [Version ver, p @ ''.gz''] (gzip_Write x f)))
            (case ioutil_ReadDir
               (snd (ioutil_WriteFile (snd (os_MkdirAll fs1 [Version ver]))
                 [Version ver, p @ ''.gz''] (gzip_Write x f))) [] of Inl err \<Rightarrow> [] | Inr es \<Rightarrow> es)
          = Completed fs'"
        using h unfolding W None by (simp only: prod.case option.case)
      then show ?thesis unfolding W None by (simp only: fst_conv snd_conv simp_thms)
    next
      case (Some err)
      have "BuildPanicked err = Completed fs'"
        using h unfolding W Some by (simp only: prod.case option.case)
      then show ?thesis by (simp only: build_result.distinct)
    qed
  qed
  show ?thesis
  proof (cases pk)
    case None
    have "?P (?b ?c)"
      by (rule step) (rule r [unfolded None option.case sum.case])
    then show ?thesis by - (rule exI, assumption)
  next
    case (Some k)
    show ?thesis
    proof (cases "rsa_SignPKCS1v15 x k (GenerateSha256 x (Inr f))")
      case (Inl err)
      have "BuildPanicked err = Completed fs'"
        using r unfolding Some option.case Info.select_convs Inl sum.case .
      then show ?thesis by (simp only: build_result.distinct)
    next
      case (Inr sig)
      have "?P (?b (?c\<lparr>Signature := Some sig\<rparr>))"
        by (rule step) (rule r [unfolded Some option.case Info.select_convs Inr sum.case])
      then show ?thesis by - (rule exI, assumption)
    qed
  qed
qed

lemma CreateUpdate_outputs:
  assumes nj: "v \<noteq> p @ ''.json''" and ne: "v \<noteq> p @ ''.gz''"
    and a1: "\<And>b. map_of genDir [v] \<noteq> Some (File b)"
    and a2: "map_of genDir [v, p @ ''.gz''] \<noteq> Some Directory"
    and a3: "\<And>D b. map_of genDir [D, v] \<noteq> Some (File b)"
    and a4: "\<And>D. map_of genDir [D, v, p] \<noteq> Some Directory"
    and r1: "gzip_Read x (gzip_Write x f) = Inr f"
    and r2: "\<And>old d. binarydist_Diff x old f = Inr d \<Longrightarrow> binarydist_Patch x old d = (f, None)"
    and run: "CreateUpdate x (emptyInfo\<lparr>Version := v\<rparr>) (Inr f) p genDir pk = Completed fs'"
  shows "is_file fs' [p @ ''.json'']
       \<and> map_of fs' [v, p @ ''.gz''] = Some (File (gzip_Write x f))
       \<and> (\<forall>D og. D \<noteq> v \<and> map_of genDir [D] = Some Directory
                  \<and> map_of genDir [D, p @ ''.gz''] = Some (File og)
            \<longrightarrow> (\<exists>ar delta. gzip_Read x og = Inr ar
                    \<and> map_of fs' [D, v, p] = Some (File delta)
                    \<and> binarydist_Patch x ar delta = (f, None)))"
proof -
  from CreateUpdate_Completed [OF run] obtain b where
    wj: "fst (ioutil_WriteFile genDir [p @ ''.json''] b) = None"
    and lp: "createPatches x v p
        (snd (ioutil_WriteFile
           (snd (os_MkdirAll (snd (ioutil_WriteFile genDir [p @ ''.json''] b)) [v]))
           [v, p @ ''.gz''] (gzip_Write x f)))
        (case ioutil_ReadDir
           (snd (ioutil_WriteFile
             (snd (os_MkdirAll (snd (ioutil_WriteFile genDir [p @ ''.json''] b)) [v]))
             [v, p @ ''.gz''] (gzip_Write x f))) [] of Inl err \<Rightarrow> [] | Inr es \<Rightarrow> es)
       = Completed fs'"
    by (auto simp: emptyInfo_def)
  let ?fs1 = "snd (ioutil_WriteFile genDir [p @ ''.json''] b)"
  let ?fs2 = "snd (os_MkdirAll ?fs1 [v])"
  let ?fs3 = "snd (ioutil_WriteFile ?fs2 [v, p @ ''.gz''] (gzip_Write x f))"
  have root: "map_of genDir [] = Some Directory"
    using wj by (simp add: WriteFile_ok_iff)
  have m1: "map_of ?fs1 q = (if q = [p @ ''.json''] then Some (File b) else map_of genDir q)" for q
    using wj by (simp add: map_of_WriteFile)
  have root1: "map_of ?fs1 [] = Some Directory" using m1 [of "[]"] root by simp
  have v1: "map_of ?fs1 [v] = map_of genDir [v]" using m1 [of "[v]"] nj by simp
  have m2: "map_of ?fs2 q = (if q = [v] \<and> map_of genDir [v] = None then Some Directory else map_of ?fs1 q)" for q
    using map_of_MkdirAll_single [OF root1, of v q] v1 by simp
  have v2: "map_of ?fs2 [v] = Some Directory"
  proof (cases "map_of genDir [v]")
    case None
    then show ?thesis using m2 [of "[v]"] by simp
  next
    case (Some a)
    then have "a = Directory" using a1 by (cases a) auto
    then show ?thesis using m2 [of "[v]"] v1 Some by simp
  qed
  have g2: "map_of ?fs2 [v, p @ ''.gz''] \<noteq> Some Directory"
    using m2 [of "[v, p @ ''.gz'']"] m1 [of "[v, p @ ''.gz'']"] a2 by simp
  have wg: "fst (ioutil_WriteFile ?fs2 [v, p @ ''.gz''] (gzip_Write x f)) = None"
    using v2 g2 by (simp add: WriteFile_ok_iff)
  have m3: "map_of ?fs3 q = (if q = [v, p @ ''.gz''] then Some (File (gzip_Write x f)) else map_of ?fs2 q)" for q
    using wg by (simp add: map_of_WriteFile)
  have long: "map_of ?fs3 q = map_of genDir q" if "q \<noteq> [p @ ''.json'']" "q \<noteq> [v]" "q \<noteq> [v, p @ ''.gz'']" for q
    using that m3 [of q] m2 [of q] m1 [of q] by simp
  have root3: "map_of ?fs3 [] = Some Directory" using long [of "[]"] root by simp
  have nw: "map_of ?fs3 [v, p @ ''.gz''] = Some (File (gzip_Write x f))" using m3 by simp
  have j3: "map_of ?fs3 [p @ ''.json''] = Some (File b)"
    using m3 [of "[p @ ''.json'']"] m2 [of "[p @ ''.json'']"] m1 [of "[p @ ''.json'']"] nj by auto
  have inv: "patch_inv ?fs3 ?fs3 v p"
    unfolding patch_inv_def
  proof (intro conjI allI impI)
    fix D c show "map_of ?fs3 [D, v] \<noteq> Some (File c)"
      using long [of "[D, v]"] a3 [of D c] ne by simp
  next
    fix D show "map_of ?fs3 [D, v, p] \<noteq> Some Directory"
      using long [of "[D, v, p]"] a4 [of D] by simp
  qed simp
  obtain es where es: "createPatches x v p ?fs3 es = Completed fs'"
    and mem: "\<And>D. map_of ?fs3 [D] = Some Directory \<Longrightarrow> (D, True) \<in> set es"
  proof -
    from root3 have "\<exists>es. ioutil_ReadDir ?fs3 [] = Inr es" by (simp add: ioutil_ReadDir_def)
    then obtain es where rd: "ioutil_ReadDir ?fs3 [] = Inr es" by blast
    have "(D, True) \<in> set es" if "map_of ?fs3 [D] = Some Directory" for D
      using ReadDir_mem [OF root3 that] rd by simp
    moreover have "createPatches x v p ?fs3 es = Completed fs'" using lp rd by simp
    ultimately show ?thesis using that by blast
  qed
  from createPatches_loop [OF ne nw r1 inv es]
  have inv': "patch_inv ?fs3 fs' v p"
    and dn: "\<And>D. (D, True) \<in> set es \<and> D \<noteq> v \<and> map_of ?fs3 [D] = Some Directory
              \<and> (\<exists>og. map_of ?fs3 [D, p @ ''.gz''] = Some (File og))
            \<Longrightarrow> patched x ?fs3 fs' v p f D"
    by blast+
  have keep: "map_of fs' q = map_of ?fs3 q" if "length q \<le> 2" "\<And>D. q \<noteq> [D, v]" for q
    using inv' that by (simp add: patch_inv_def)
  have c1: "is_file fs' [p @ ''.json'']"
    using keep [of "[p @ ''.json'']"] j3 by (simp add: is_file_def)
  have c2: "map_of fs' [v, p @ ''.gz''] = Some (File (gzip_Write x f))"
    using keep [of "[v, p @ ''.gz'']"] nw ne by simp
  have c3: "\<exists>ar delta. gzip_Read x og = Inr ar \<and> map_of fs' [D, v, p] = Some (File delta)
        \<and> binarydist_Patch x ar delta = (f, None)"
    if h: "D \<noteq> v \<and> map_of genDir [D] = Some Directory \<and> map_of genDir [D, p @ ''.gz''] = Some (File og)"
    for D og
  proof -
    have dj: "D \<noteq> p @ ''.json''"
    proof
      assume "D = p @ ''.json''"
      then have "map_of genDir [p @ ''.json''] = Some Directory" using h by simp
      then show False using wj by (simp add: WriteFile_ok_iff)
    qed
    have d3: "map_of ?fs3 [D] = Some Directory" using long [of "[D]"] h dj by simp
    have o3: "map_of ?fs3 [D, p @ ''.gz''] = Some (File og)" using long [of "[D, p @ ''.gz'']"] h by simp
    have "patched x ?fs3 fs' v p f D" using dn [of D] mem [OF d3] h d3 o3 by blast
    then obtain og' ar delta where "map_of ?fs3 [D, p @ ''.gz''] = Some (File og')"
      and ar: "gzip_Read x og' = Inr ar" and dl: "binarydist_Diff x ar f = Inr delta"
      and pt: "map_of fs' [D, v, p] = Some (File delta)"
      unfolding patched_def by blast
    then have "og' = og" using o3 by simp
    then show ?thesis using ar pt r2 [OF dl] by blast
  qed
  show ?thesis using c1 c2 c3 by blast
qed

text \<open>The conditions hold of the output directory with the one release 1.0.\<close>

lemma CreateUpdate_outputs_example:
  "\<exists>fs'. CreateUpdate example_externals (emptyInfo\<lparr>Version := ''1.1''\<rparr>) (Inr ''NEW'') ''linux-amd64''
       one_release_tree None = Completed fs'
     \<and> is_file fs' [''linux-amd64.json'']
     \<and> map_of fs' [''1.1'', ''linux-amd64.gz''] = Some (File ''NEW'')
     \<and> (\<exists>ar delta. gzip_Read example_externals ''OLD'' = Inr ar
           \<and> map_of fs' [''1.0'', ''1.1'', ''linux-amd64''] = Some (File delta)
           \<and> binarydist_Patch example_externals ar delta = (''NEW'', None))"
proof -
  let ?fs = "[([], Directory), ([''1.0''], Directory), ([''1.0'', ''linux-amd64.gz''], File ''OLD''),
          ([''linux-amd64.json''], File ''1.1''), ([''1.1''], Directory),
          ([''1.1'', ''linux-amd64.gz''], File ''NEW''), ([''1.0'', ''1.1''], Directory),
          ([''1.0'', ''1.1'', ''linux-amd64''], File ''NEW'')]"
  have run: "CreateUpdate example_externals (emptyInfo\<lparr>Version := ''1.1''\<rparr>) (Inr ''NEW'') ''linux-amd64''
       one_release_tree None = Completed ?fs"
    by code_simp
  have nj: "''1.1'' \<noteq> ''linux-amd64'' @ ''.json''" and ne: "''1.1'' \<noteq> ''linux-amd64'' @ ''.gz''"
    by simp_all
  have a1: "map_of one_release_tree [''1.1''] \<noteq> Some (File b)" for b
    by (simp add: one_release_tree_def)
  have a2: "map_of one_release_tree [''1.1'', ''linux-amd64'' @ ''.gz''] \<noteq> Some Directory"
    by (simp add: one_release_tree_def)
  have a3: "map_of one_release_tree [D, ''1.1''] \<noteq> Some (File b)" for D b
    by (simp add: one_release_tree_def)
  have a4: "map_of one_release_tree [D, ''1.1'', ''linux-amd64''] \<noteq> Some Directory" for D
    by (simp add: one_release_tree_def)
  have r1: "gzip_Read example_externals (gzip_Write example_externals ''NEW'') = Inr ''NEW''"
    by (simp add: example_externals_def)
  have r2: "binarydist_Diff example_externals old ''NEW'' = Inr d \<Longrightarrow>
      binarydist_Patch example_externals old d = (''NEW'', None)" for old d
    by (auto simp add: example_externals_def)
  have d: "''1.0'' \<noteq> ''1.1'' \<and> map_of one_release_tree [''1.0''] = Some Directory
      \<and> map_of one_release_tree [''1.0'', ''linux-amd64'' @ ''.gz''] = Some (File ''OLD'')"
    by (simp add: one_release_tree_def)
  have w: "gzip_Write example_externals ''NEW'' = ''NEW''" by (simp add: example_externals_def)
  have R: "is_file ?fs [''linux-amd64'' @ ''.json'']
       \<and> map_of ?fs [''1.1'', ''linux-amd64'' @ ''.gz'']
           = Some (File (gzip_Write example_externals ''NEW''))
       \<and> (\<forall>D og. D \<noteq> ''1.1'' \<and> map_of one_release_tree [D] = Some Directory
                  \<and> map_of one_release_tree [D, ''linux-amd64'' @ ''.gz''] = Some (File og)
            \<longrightarrow> (\<exists>ar delta. gzip_Read example_externals og = Inr ar
                    \<and> map_of ?fs [D, ''1.1'', ''linux-amd64''] = Some (File delta)
                    \<and> binarydist_Patch example_externals ar delta = (''NEW'', None)))"
    by (rule CreateUpdate_outputs [OF nj ne a1 a2 a3 a4 r1 _ run]) (rule r2)
  have c1: "is_file ?fs [''linux-amd64.json'']"
    using R [THEN conjunct1] by simp
  have c2: "map_of ?fs [''1.1'', ''linux-amd64.gz''] = Some (File ''NEW'')"
    using R [THEN conjunct2, THEN conjunct1] by (simp add: w)
  have c3: "\<exists>ar delta. gzip_Read example_externals ''OLD'' = Inr ar
           \<and> map_of ?fs [''1.0'', ''1.1'', ''linux-amd64''] = Some (File delta)
           \<and> binarydist_Patch example_externals ar delta = (''NEW'', None)"
    by (rule R [THEN conjunct2, THEN conjunct2, rule_format, OF d])
  show ?thesis
    by (rule exI [of _ ?fs]) (intro conjI run c1 c2 c3)
qed

subsection \<open>When an ignored write fails\<close>

text \<open>
  Claim C3. After \<open>CreateUpdate\<close> has completed, the gzip file of the new version and the
  patches need not exist, because the errors of \<open>os.MkdirAll\<close>, \<open>os.Mkdir\<close> and of the two
  later \<open>ioutil.WriteFile\<close> calls are ignored. In an output directory where a regular
  file has the name of the version, \<open>CreateUpdate\<close> writes the manifest and completes
  without \<open>1.1/linux-amd64.gz\<close>. In an output directory where release 1.0 holds its gzip
  file and a regular file with the name of the version, \<open>CreateUpdate\<close> completes without
  the patch \<open>1.0/1.1/linux-amd64\<close>.
\<close>

theorem CreateUpdate_ignores_write_errors:
  "CreateUpdate example_externals (emptyInfo\<lparr>Version := ''1.1''\<rparr>) (Inr ''NEW'') ''linux-amd64''
       blocked_version_tree None
     = Completed [([], Directory), ([''1.1''], File ''notes''), ([''linux-amd64.json''], File ''1.1'')]
   \<and> \<not> is_file [([], Directory), ([''1.1''], File ''notes''), ([''linux-amd64.json''], File ''1.1'')]
         [''1.1'', ''linux-amd64.gz'']
   \<and> CreateUpdate example_externals (emptyInfo\<lparr>Version := ''1.1''\<rparr>) (Inr ''NEW'') ''linux-amd64''
       blocked_patch_tree None
     = Completed
         [([], Directory), ([''1.0''], Directory), ([''1.0'', ''linux-amd64.gz''], File ''OLD''),
          ([''1.0'', ''1.1''], File ''notes''), ([''linux-amd64.json''], File ''1.1''),
          ([''1.1''], Directory), ([''1.1'', ''linux-amd64.gz''], File ''NEW'')]
   \<and> \<not> is_file
         [([], Directory), ([''1.0''], Directory), ([''1.0'', ''linux-amd64.gz''], File ''OLD''),
          ([''1.0'', ''1.1''], File ''notes''), ([''linux-amd64.json''], File ''1.1''),
          ([''1.1''], Directory), ([''1.1'', ''linux-amd64.gz''], File ''NEW'')]
         [''1.0'', ''1.1'', ''linux-amd64'']"
  by code_simp

end
